theory Spec2Isabelle
  imports Complex_Main "HOL-Library.Sublist" "HOL-Library.Log_Nat"
begin

section \<open>JavaScript values used by the content server\<close>

subsection \<open>Strings\<close>

text \<open>
  A JavaScript string is a sequence of UTF-16 code units; \<open>length\<close>, \<open>includes\<close>,
  \<open>split\<close> and the regular expressions of the source all work on code units. A text
  is modelled as the list of its code units; \<open>js\<close> turns a literal into such a list.
  \<open>toLowerCase\<close> is modelled on the code units below 256 (ASCII and Latin-1), where
  the mapping of the language is one unit to one unit; other code units are left
  unchanged, so cased letters of other scripts are outside the model.
\<close>

type_synonym jstring = "nat list"

definition js :: "string \<Rightarrow> jstring" where
  "js s = map of_char s"

definition lowerUnit :: "nat \<Rightarrow> nat" where
  "lowerUnit c =
     (if (65 \<le> c \<and> c \<le> 90) \<or> (192 \<le> c \<and> c \<le> 222 \<and> c \<noteq> 215) then c + 32 else c)"

definition toLowerCase :: "jstring \<Rightarrow> jstring" where
  "toLowerCase s = map lowerUnit s"

text \<open>The class \<open>\s\<close> of regular expressions, which is also what \<open>trim\<close> strips.\<close>

definition isSpace :: "nat \<Rightarrow> bool" where
  "isSpace c = (c \<in> set [9, 10, 11, 12, 13, 32, 160, 5760, 8232, 8233, 8239, 8287, 12288, 65279]
                \<or> (8192 \<le> c \<and> c \<le> 8202))"

definition isDigit :: "nat \<Rightarrow> bool" where
  "isDigit c = (48 \<le> c \<and> c \<le> 57)"

definition isUpperAZ :: "nat \<Rightarrow> bool" where
  "isUpperAZ c = (65 \<le> c \<and> c \<le> 90)"

text \<open>\<open>anywhere P s\<close>: the pattern \<open>P\<close> matches at some position of \<open>s\<close>.\<close>

fun anywhere :: "(jstring \<Rightarrow> bool) \<Rightarrow> jstring \<Rightarrow> bool" where
  "anywhere P [] = P []"
| "anywhere P (c # cs) = (P (c # cs) \<or> anywhere P cs)"

text \<open>\<open>text.includes(term)\<close>.\<close>

definition str_includes :: "jstring \<Rightarrow> jstring \<Rightarrow> bool" where
  "str_includes s t = anywhere (prefix t) s"

text \<open>\<open>text.split(sep)\<close> for a non-empty separator string.\<close>

function split_from :: "jstring \<Rightarrow> jstring \<Rightarrow> jstring \<Rightarrow> jstring list" where
  "split_from sep acc [] = [rev acc]"
| "split_from sep acc (c # cs) =
     (if sep \<noteq> [] \<and> prefix sep (c # cs)
      then rev acc # split_from sep [] (drop (length sep) (c # cs))
      else split_from sep (c # acc) cs)"
  by pat_completeness auto
termination
  by (relation "measure (\<lambda>(sep, acc, s). length s)") auto

definition split :: "jstring \<Rightarrow> jstring \<Rightarrow> jstring list" where
  "split sep s = split_from sep [] s"

text \<open>\<open>text.split(/\s+/)\<close>.\<close>

function split_ws_from :: "jstring \<Rightarrow> jstring \<Rightarrow> jstring list" where
  "split_ws_from acc [] = [rev acc]"
| "split_ws_from acc (c # cs) =
     (if isSpace c then rev acc # split_ws_from [] (dropWhile isSpace cs)
      else split_ws_from (c # acc) cs)"
  by pat_completeness auto
termination
  by (relation "measure (\<lambda>(acc, s). length s)") (auto simp: length_dropWhile_le less_Suc_eq_le)

definition split_ws :: "jstring \<Rightarrow> jstring list" where
  "split_ws s = split_ws_from [] s"

definition trim :: "jstring \<Rightarrow> jstring" where
  "trim s = rev (dropWhile isSpace (rev (dropWhile isSpace s)))"

definition join :: "jstring \<Rightarrow> jstring list \<Rightarrow> jstring" where
  "join sep xs = (case xs of [] \<Rightarrow> [] | y # ys \<Rightarrow> y @ concat (map (\<lambda>x. sep @ x) ys))"

text \<open>The number of entries of a term table that the text includes.\<close>

definition found :: "jstring \<Rightarrow> jstring list \<Rightarrow> jstring list" where
  "found text terms = filter (str_includes text) terms"

definition count_found :: "jstring \<Rightarrow> jstring list \<Rightarrow> int" where
  "count_found text terms = int (length (found text terms))"

text \<open>The regular expressions of the auditor and of the extraction, each as the test
  whether it matches at the start of a string.\<close>

definition re_d4 :: "jstring \<Rightarrow> bool" where \<comment> \<open>\<open>/\d{4}/\<close>\<close>
  "re_d4 s = (4 \<le> length s \<and> list_all isDigit (take 4 s))"

definition re_percent :: "jstring \<Rightarrow> bool" where \<comment> \<open>\<open>/\d+%/\<close>\<close>
  "re_percent s = (case s of [] \<Rightarrow> False
     | c # cs \<Rightarrow> isDigit c \<and> (case dropWhile isDigit cs of [] \<Rightarrow> False | x # xs \<Rightarrow> x = 37))"

definition re_dollar :: "jstring \<Rightarrow> bool" where \<comment> \<open>\<open>/\$\d+/\<close>\<close>
  "re_dollar s = (case s of c # d # cs \<Rightarrow> c = 36 \<and> isDigit d | _ \<Rightarrow> False)"

definition re_decimal :: "jstring \<Rightarrow> bool" where \<comment> \<open>\<open>/\d+\.\d+/\<close>\<close>
  "re_decimal s = (case s of [] \<Rightarrow> False
     | c # cs \<Rightarrow> isDigit c \<and> (case dropWhile isDigit cs of x # y # xs \<Rightarrow> x = 46 \<and> isDigit y | _ \<Rightarrow> False))"

subsection \<open>Numbers\<close>

text \<open>
  A JavaScript number is an IEEE 754 double. The scores are small integers, on which
  addition, subtraction and multiplication are exact; they are modelled as \<open>int\<close>.
  Where the source divides or multiplies by a decimal fraction, the result is rounded to
  the nearest double, ties to even: \<open>fl\<close>, on rationals, for the normal range of doubles
  (all quotients and products below are between \<open>2\<^sup>-\<^sup>5\<^sup>3\<close> and \<open>2\<^sup>5\<^sup>3\<close>, or zero).
\<close>

definition binade :: "rat \<Rightarrow> int" where
  "binade a = (let (n, d) = quotient_of a; e = bitlen n - bitlen d
               in if 2 powi e \<le> a then e else e - 1)"

definition roundTiesToEven :: "rat \<Rightarrow> int" where
  "roundTiesToEven x = (let f = \<lfloor>x\<rfloor>; r = x - of_int f
     in if r < 1/2 then f else if 1/2 < r then f + 1 else if even f then f else f + 1)"

definition fl :: "rat \<Rightarrow> rat" where
  "fl q = (if q = 0 then 0
           else let u = 2 powi (binade \<bar>q\<bar> - 52)
                in sgn q * of_int (roundTiesToEven (\<bar>q\<bar> / u)) * u)"

definition js_mul :: "rat \<Rightarrow> rat \<Rightarrow> rat" where
  "js_mul x y = fl (x * y)"

definition js_add :: "rat \<Rightarrow> rat \<Rightarrow> rat" where
  "js_add x y = fl (x + y)"

text \<open>The result of a division of two counts: \<open>0 / 0\<close> is \<open>NaN\<close>, \<open>n / 0\<close> is
  \<open>Infinity\<close> for a positive \<open>n\<close>.\<close>

datatype jsnum = NaN | PosInf | Fin rat

definition js_div :: "nat \<Rightarrow> nat \<Rightarrow> jsnum" where
  "js_div a b = (if b = 0 then (if a = 0 then NaN else PosInf)
                 else Fin (fl (of_nat a / of_nat b)))"

text \<open>Comparisons of such a result with a finite number; every comparison with
  \<open>NaN\<close> is false.\<close>

fun js_lt :: "jsnum \<Rightarrow> rat \<Rightarrow> bool" where
  "js_lt NaN y = False"
| "js_lt PosInf y = False"
| "js_lt (Fin x) y = (x < y)"

fun js_le :: "jsnum \<Rightarrow> rat \<Rightarrow> bool" where
  "js_le NaN y = False"
| "js_le PosInf y = False"
| "js_le (Fin x) y = (x \<le> y)"

fun js_gt :: "jsnum \<Rightarrow> rat \<Rightarrow> bool" where
  "js_gt NaN y = False"
| "js_gt PosInf y = True"
| "js_gt (Fin x) y = (y < x)"

fun js_ge :: "jsnum \<Rightarrow> rat \<Rightarrow> bool" where
  "js_ge NaN y = False"
| "js_ge PosInf y = True"
| "js_ge (Fin x) y = (y \<le> x)"

text \<open>\<open>Math.round\<close>: the nearest integer, a tie going up.\<close>

definition Math_round :: "rat \<Rightarrow> int" where
  "Math_round x = \<lfloor>x + 1/2\<rfloor>"

text \<open>\<open>Math.min(100, Math.max(0, score))\<close>.\<close>

definition clamp :: "int \<Rightarrow> int" where
  "clamp score = min 100 (max 0 score)"

definition in_range :: "int \<Rightarrow> bool" where
  "in_range x = (0 \<le> x \<and> x \<le> 100)"

section \<open>The content auditor\<close>

subsection \<open>Brand voice\<close>

definition authoritativeTerms :: "jstring list" where
  "authoritativeTerms = map js
     [''data shows'', ''research indicates'', ''historical'', ''evidence'', ''studies show'',
      ''according to'', ''analysis reveals'', ''experts'', ''decades of'', ''proven'',
      ''statistics'', ''federal reserve'', ''treasury'', ''economic data'', ''market data'']"

definition unsubstantiatedClaims :: "jstring list" where
  "unsubstantiatedClaims = map js
     [''everyone knows'', ''obviously'', ''clearly'', ''without a doubt'',
      ''definitely will'', ''guaranteed to'', ''always works'']"

definition scoreAuthoritativeness :: "jstring \<Rightarrow> int" where
  "scoreAuthoritativeness content =
     (let contentLower = toLowerCase content;
          score = 50;
          authCount = count_found contentLower authoritativeTerms;
          score = score + authCount * 8;
          score = (if str_includes contentLower (js ''source:'')
                      \<or> str_includes contentLower (js ''according to'')
                   then score + 10 else score);
          score = (if anywhere re_d4 content then score + 5 else score);
          score = (if anywhere re_percent content then score + 10 else score);
          unsubstantiatedCount = count_found contentLower unsubstantiatedClaims;
          score = score - unsubstantiatedCount * 15
      in clamp score)"

definition transparentTerms :: "jstring list" where
  "transparentTerms = map js
     [''risk'', ''consider'', ''factors'', ''important to understand'',
      ''no guarantee'', ''past performance'', ''potential downsides'',
      ''consult'', ''evaluate'', ''assess your situation'']"

definition trustBuildingTerms :: "jstring list" where
  "trustBuildingTerms = map js
     [''our process'', ''we believe'', ''our approach'', ''transparency'',
      ''honest'', ''straightforward'', ''clear about'']"

definition secretiveTerms :: "jstring list" where
  "secretiveTerms = map js
     [''secret'', ''exclusive insider'', ''hidden opportunity'',
      ''banks don't want you to know'', ''wall street hates this'']"

definition scoreTrustworthiness :: "jstring \<Rightarrow> int" where
  "scoreTrustworthiness content =
     (let contentLower = toLowerCase content;
          score = 50;
          transparentCount = count_found contentLower transparentTerms;
          score = score + transparentCount * 12;
          score = (if str_includes contentLower (js ''not investment advice'')
                   then score + 15 else score);
          score = (if str_includes contentLower (js ''consult'')
                      \<and> str_includes contentLower (js ''professional'')
                   then score + 10 else score);
          trustCount = count_found contentLower trustBuildingTerms;
          score = score + trustCount * 8;
          secretiveCount = count_found contentLower secretiveTerms;
          score = score - secretiveCount * 20
      in clamp score)"

definition professionalTerms :: "jstring list" where
  "professionalTerms = map js
     [''portfolio'', ''allocation'', ''diversification'', ''investment strategy'',
      ''wealth preservation'', ''financial planning'', ''asset class'',
      ''market conditions'', ''economic factors'']"

definition casualTerms :: "jstring list" where
  "casualTerms = map js
     [''awesome'', ''amazing'', ''incredible'', ''unbelievable'', ''crazy'',
      ''insane'', ''wild'', ''epic'', ''mind-blowing'', ''game-changer'']"

text \<open>\<open>content.split('.').filter(s => s.trim().length > 0)\<close>, and the same for the
  paragraphs between blank lines.\<close>

definition sentencesOf :: "jstring \<Rightarrow> jstring list" where
  "sentencesOf content = filter (\<lambda>s. 0 < length (trim s)) (split (js ''.'') content)"

definition paragraphsOf :: "jstring \<Rightarrow> jstring list" where
  "paragraphsOf content = filter (\<lambda>p. 0 < length (trim p)) (split [10, 10] content)"

definition totalLength :: "jstring list \<Rightarrow> nat" where
  "totalLength xs = sum_list (map length xs)"

definition scoreProfessionalism :: "jstring \<Rightarrow> int" where
  "scoreProfessionalism content =
     (let contentLower = toLowerCase content;
          score = 70;
          profCount = count_found contentLower professionalTerms;
          score = score + profCount * 5;
          casualCount = count_found contentLower casualTerms;
          score = score - casualCount * 15;
          sentences = sentencesOf content;
          avgSentenceLength = js_div (totalLength sentences) (length sentences);
          score = (if js_gt avgSentenceLength 30 \<and> js_lt avgSentenceLength 80
                   then score + 10 else score);
          score = (if js_gt avgSentenceLength 100 then score - 10 else score)
      in clamp score)"

definition protectiveTerms :: "jstring list" where
  "protectiveTerms = map js
     [''protect'', ''preserve'', ''safeguard'', ''hedge against'',
      ''shield from'', ''defense against'', ''security'', ''stability'',
      ''wealth preservation'', ''protection from inflation'']"

definition protEducationalTerms :: "jstring list" where
  "protEducationalTerms = map js
     [''understand'', ''learn'', ''consider'', ''evaluate'', ''analyze'',
      ''factors'', ''important to know'', ''key points'', ''things to consider'']"

definition salesTerms :: "jstring list" where
  "salesTerms = map js
     [''buy now'', ''purchase'', ''order'', ''call today'', ''don't wait'',
      ''limited time'', ''act fast'', ''special offer'', ''discount'']"

definition scoreProtectiveness :: "jstring \<Rightarrow> int" where
  "scoreProtectiveness content =
     (let contentLower = toLowerCase content;
          score = 50;
          protectiveCount = count_found contentLower protectiveTerms;
          score = score + protectiveCount * 10;
          eduCount = count_found contentLower protEducationalTerms;
          salesCount = count_found contentLower salesTerms;
          score = (if eduCount > salesCount * 2 then score + 15 else score);
          score = (if salesCount > eduCount then score - 20 else score)
      in clamp score)"

record BrandVoiceAnalysis =
  bv_score :: int
  knowledgeable_authoritative :: int
  trustworthy_transparent :: int
  professional_established :: int
  protective_strategic :: int
  bv_issues :: "jstring list"

text \<open>\<open>if (c) issues.push(msg)\<close>.\<close>

definition push_if :: "bool \<Rightarrow> string \<Rightarrow> jstring list \<Rightarrow> jstring list" where
  "push_if c msg issues = (if c then issues @ [js msg] else issues)"

definition analyzeBrandVoice :: "jstring \<Rightarrow> BrandVoiceAnalysis" where
  "analyzeBrandVoice content =
     (let authoritative = scoreAuthoritativeness content;
          trustworthy = scoreTrustworthiness content;
          professional = scoreProfessionalism content;
          protective = scoreProtectiveness content;
          issues = [];
          issues = push_if (authoritative < 70) ''Lacks authoritative evidence and data'' issues;
          issues = push_if (trustworthy < 70)
                     ''Needs more transparency about risks and processes'' issues;
          issues = push_if (professional < 70)
                     ''Language too casual or trendy for target demographic'' issues;
          issues = push_if (protective < 70) ''Too sales-focused, not protective enough'' issues;
          score = Math_round
                    (fl (of_int (authoritative + trustworthy + professional + protective) / 4))
      in \<lparr> bv_score = score,
           knowledgeable_authoritative = authoritative,
           trustworthy_transparent = trustworthy,
           professional_established = professional,
           protective_strategic = protective,
           bv_issues = issues \<rparr>)"

subsection \<open>Audience alignment\<close>

definition youngTerms :: "jstring list" where
  "youngTerms = map js
     [''yo'', ''bro'', ''dude'', ''lit'', ''fire'', ''sick'', ''bet'', ''cap'',
      ''no cap'', ''fr'', ''periodt'', ''slaps'', ''hits different'']"

definition appropriateRefs :: "jstring list" where
  "appropriateRefs = map js
     [''retirement'', ''estate planning'', ''legacy'', ''grandchildren'',
      ''fixed income'', ''social security'', ''pension'', ''401k'', ''ira'']"

definition scoreAgeAppropriateness :: "jstring \<Rightarrow> int" where
  "scoreAgeAppropriateness content =
     (let contentLower = toLowerCase content;
          score = 70;
          youngCount = count_found contentLower youngTerms;
          score = score - youngCount * 25;
          refCount = count_found contentLower appropriateRefs;
          score = score + refCount * 8
      in clamp score)"

definition conservativeTerms :: "jstring list" where
  "conservativeTerms = map js
     [''stability'', ''security'', ''preservation'', ''steady'', ''reliable'',
      ''time-tested'', ''established'', ''proven track record'', ''conservative approach'']"

definition riskAverseTerms :: "jstring list" where
  "riskAverseTerms = map js
     [''careful consideration'', ''prudent'', ''cautious'', ''measured approach'',
      ''due diligence'', ''thoroughly evaluate'']"

definition scoreToneMatch :: "jstring \<Rightarrow> int" where
  "scoreToneMatch content =
     (let contentLower = toLowerCase content;
          score = 60;
          consCount = count_found contentLower conservativeTerms;
          score = score + consCount * 10;
          riskCount = count_found contentLower riskAverseTerms;
          score = score + riskCount * 8
      in clamp score)"

definition jargonTerms :: "jstring list" where
  "jargonTerms = map js
     [''derivative'', ''quantitative easing'', ''basis points'', ''contango'',
      ''backwardation'', ''volatility surface'', ''correlation coefficient'']"

definition scoreComplexityLevel :: "jstring \<Rightarrow> int" where
  "scoreComplexityLevel content =
     (let sentences = sentencesOf content;
          words = filter (\<lambda>w. 0 < length w) (split_ws content);
          avgWordsPerSentence = js_div (length words) (length sentences);
          score = 50;
          score = (if js_ge avgWordsPerSentence 15 \<and> js_le avgWordsPerSentence 25 then score + 20
                   else if js_lt avgWordsPerSentence 10 then score - 15
                   else if js_gt avgWordsPerSentence 30 then score - 20
                   else score);
          jargonCount = count_found (toLowerCase content) jargonTerms;
          score = (if jargonCount > 3 then score - 15 else score)
      in clamp score)"

record AudienceAnalysis =
  aa_score :: int
  age_appropriate :: int
  tone_match :: int
  complexity_level :: int
  aa_issues :: "jstring list"

definition analyzeAudienceAlignment :: "jstring \<Rightarrow> AudienceAnalysis" where
  "analyzeAudienceAlignment content =
     (let issues = [];
          ageAppropriate = scoreAgeAppropriateness content;
          toneMatch = scoreToneMatch content;
          complexityLevel = scoreComplexityLevel content;
          issues = push_if (ageAppropriate < 70)
                     ''Language not appropriate for 45-75 demographic'' issues;
          issues = push_if (toneMatch < 70)
                     ''Tone doesn't match conservative investor preferences'' issues;
          issues = push_if (complexityLevel < 70)
                     ''Content complexity not optimal for audience'' issues;
          score = Math_round (fl (of_int (ageAppropriate + toneMatch + complexityLevel) / 3))
      in \<lparr> aa_score = score,
           age_appropriate = ageAppropriate,
           tone_match = toneMatch,
           complexity_level = complexityLevel,
           aa_issues = issues \<rparr>)"

subsection \<open>Content structure\<close>

definition scoreInformationHierarchy :: "jstring \<Rightarrow> int" where
  "scoreInformationHierarchy content =
     (let score = 50;
          hasHeaders = (str_includes content (js ''#'') \<or> str_includes content (js ''##''));
          score = (if hasHeaders then score + 15 else score);
          hasList = (str_includes content [8226] \<or> str_includes content (js ''-'')
                     \<or> str_includes content (js ''*''));
          score = (if hasList then score + 10 else score);
          paragraphs = paragraphsOf content;
          score = (if 3 \<le> length paragraphs then score + 10 else score);
          firstParagraph = (case paragraphs of [] \<Rightarrow> [] | p # ps \<Rightarrow> p);
          score = (if 50 < length firstParagraph \<and> length firstParagraph < 200
                   then score + 10 else score)
      in clamp score)"

definition scoreReadability :: "jstring \<Rightarrow> int" where
  "scoreReadability content =
     (let score = 60;
          sentences = sentencesOf content;
          avgLength = js_div (totalLength sentences) (length sentences);
          score = (if js_gt avgLength 50 \<and> js_lt avgLength 120 then score + 15 else score);
          paragraphs = paragraphsOf content;
          avgParagraphLength = js_div (totalLength paragraphs) (length paragraphs);
          score = (if js_lt avgParagraphLength 500 then score + 10 else score);
          whitespaceRatio = js_div (length (filter isSpace content)) (length content);
          score = (if js_gt whitespaceRatio (fl (15/100)) \<and> js_lt whitespaceRatio (fl (25/100))
                   then score + 10 else score)
      in clamp score)"

definition progressionTerms :: "jstring list" where
  "progressionTerms = map js
     [''first'', ''second'', ''next'', ''then'', ''finally'', ''to begin'',
      ''let's start'', ''to understand'', ''consider this'', ''for example'']"

definition reinforcementTerms :: "jstring list" where
  "reinforcementTerms = map js
     [''remember'', ''key point'', ''important'', ''takeaway'',
      ''in summary'', ''to recap'', ''this means'']"

definition scoreEducationalFlow :: "jstring \<Rightarrow> int" where
  "scoreEducationalFlow content =
     (let contentLower = toLowerCase content;
          score = 50;
          progressionCount = count_found contentLower progressionTerms;
          score = score + progressionCount * 8;
          reinforcementCount = count_found contentLower reinforcementTerms;
          score = score + reinforcementCount * 10
      in clamp score)"

record StructureAnalysis =
  cs_score :: int
  information_hierarchy :: int
  readability :: int
  educational_flow :: int
  cs_issues :: "jstring list"

definition analyzeContentStructure :: "jstring \<Rightarrow> StructureAnalysis" where
  "analyzeContentStructure content =
     (let issues = [];
          hierarchyScore = scoreInformationHierarchy content;
          readabilityScore = scoreReadability content;
          educationalFlowScore = scoreEducationalFlow content;
          issues = push_if (hierarchyScore < 70)
                     ''Poor information hierarchy - needs better structure'' issues;
          issues = push_if (readabilityScore < 70)
                     ''Readability issues - too dense or poorly formatted'' issues;
          issues = push_if (educationalFlowScore < 70)
                     ''Doesn't follow educational progression'' issues;
          score = Math_round
                    (fl (of_int (hierarchyScore + readabilityScore + educationalFlowScore) / 3))
      in \<lparr> cs_score = score,
           information_hierarchy = hierarchyScore,
           readability = readabilityScore,
           educational_flow = educationalFlowScore,
           cs_issues = issues \<rparr>)"

subsection \<open>Compliance requirements\<close>

definition disclaimerTerms :: "jstring list" where
  "disclaimerTerms = map js
     [''not investment advice'', ''not financial advice'', ''consult'',
      ''educational purposes'', ''past performance'', ''no guarantee'']"

definition checkDisclaimers :: "jstring \<Rightarrow> bool" where
  "checkDisclaimers content = list_ex (str_includes (toLowerCase content)) disclaimerTerms"

definition riskTerms :: "jstring list" where
  "riskTerms = map js
     [''risk'', ''may lose'', ''no guarantee'', ''past performance'',
      ''market volatility'', ''fluctuate'', ''consider your situation'']"

definition checkRiskDisclosures :: "jstring \<Rightarrow> bool" where
  "checkRiskDisclosures content = (2 \<le> count_found (toLowerCase content) riskTerms)"

definition educationalTerms :: "jstring list" where
  "educationalTerms = map js
     [''understand'', ''learn'', ''education'', ''knowledge'', ''inform'',
      ''consider'', ''evaluate'', ''factors'', ''important to know'']"

definition checkEducationalFraming :: "jstring \<Rightarrow> bool" where
  "checkEducationalFraming content = (3 \<le> count_found (toLowerCase content) educationalTerms)"

record ComplianceAnalysis =
  cr_score :: int
  disclaimers_present :: bool
  risk_disclosures :: bool
  educational_framing :: bool
  cr_issues :: "jstring list"

definition analyzeCompliance :: "jstring \<Rightarrow> ComplianceAnalysis" where
  "analyzeCompliance content =
     (let score = 50;
          issues = [];
          disclaimersPresent = checkDisclaimers content;
          score = (if disclaimersPresent then score + 25 else score);
          issues = push_if (\<not> disclaimersPresent) ''Missing required financial disclaimers'' issues;
          riskDisclosures = checkRiskDisclosures content;
          score = (if riskDisclosures then score + 20 else score);
          issues = push_if (\<not> riskDisclosures \<and> 500 < length content)
                     ''Needs risk disclosure statements'' issues;
          educationalFraming = checkEducationalFraming content;
          score = (if educationalFraming then score + 25 else score);
          issues = push_if (\<not> educationalFraming)
                     ''Content not properly framed as educational'' issues
      in \<lparr> cr_score = min 100 score,
           disclaimers_present = disclaimersPresent,
           risk_disclosures = riskDisclosures,
           educational_framing = educationalFraming,
           cr_issues = issues \<rparr>)"

subsection \<open>Sales tactics\<close>

definition pressureTerms :: "jstring list" where
  "pressureTerms = map js
     [''act now'', ''don't wait'', ''last chance'', ''limited spots'',
      ''only today'', ''expires soon'', ''while supplies last'',
      ''don't miss out'', ''you must'', ''you should'']"

definition findPressureTactics :: "jstring \<Rightarrow> jstring list" where
  "findPressureTactics content = found (toLowerCase content) pressureTerms"

definition urgencyTerms :: "jstring list" where
  "urgencyTerms = map js
     [''urgent'', ''immediately'', ''right now'', ''today only'',
      ''hurry'', ''fast'', ''quick'', ''instant'', ''emergency'']"

definition findUrgencyLanguage :: "jstring \<Rightarrow> jstring list" where
  "findUrgencyLanguage content = found (toLowerCase content) urgencyTerms"

definition aggressiveTerms :: "jstring list" where
  "aggressiveTerms = map js
     [''guaranteed returns'', ''risk-free'', ''can't lose'', ''sure thing'',
      ''explosive growth'', ''get rich'', ''fortune'', ''wealth beyond'']"

definition findAggressiveTerms :: "jstring \<Rightarrow> jstring list" where
  "findAggressiveTerms content = found (toLowerCase content) aggressiveTerms"

definition trustTerms :: "jstring list" where
  "trustTerms = map js
     [''trust'', ''reliable'', ''honest'', ''transparent'', ''education'',
      ''understand'', ''learn'', ''consider'', ''evaluate'']"

definition pushTerms :: "jstring list" where
  "pushTerms = map js
     [''buy'', ''purchase'', ''order'', ''call now'', ''get'', ''grab'',
      ''don't miss'', ''act now'', ''limited time'']"

definition trustCountOf :: "jstring \<Rightarrow> nat" where
  "trustCountOf content = length (found (toLowerCase content) trustTerms)"

definition pushCountOf :: "jstring \<Rightarrow> nat" where
  "pushCountOf content = length (found (toLowerCase content) pushTerms)"

definition calculateTrustVsPushRatio :: "jstring \<Rightarrow> jsnum" where
  "calculateTrustVsPushRatio content =
     (let trustCount = trustCountOf content;
          pushCount = pushCountOf content
      in if pushCount = 0 then Fin (of_nat trustCount) else js_div trustCount pushCount)"

record SalesTacticsAnalysis =
  st_score :: int
  pressure_tactics :: "jstring list"
  urgency_language :: "jstring list"
  aggressive_terms :: "jstring list"
  trust_vs_push_ratio :: jsnum

definition analyzeSalesTactics :: "jstring \<Rightarrow> SalesTacticsAnalysis" where
  "analyzeSalesTactics content =
     (let pressureTactics = findPressureTactics content;
          urgencyLanguage = findUrgencyLanguage content;
          aggressiveTerms = findAggressiveTerms content;
          trustVsPushRatio = calculateTrustVsPushRatio content;
          score = 80;
          score = score - int (length pressureTactics) * 15;
          score = score - int (length urgencyLanguage) * 10;
          score = score - int (length aggressiveTerms) * 12;
          score = (if js_lt trustVsPushRatio 1 then score - 20 else score)
      in \<lparr> st_score = max 0 score,
           pressure_tactics = pressureTactics,
           urgency_language = urgencyLanguage,
           aggressive_terms = aggressiveTerms,
           trust_vs_push_ratio = trustVsPushRatio \<rparr>)"

subsection \<open>The audit\<close>

text \<open>The five weights are the doubles nearest to the decimal literals of the source;
  the sum is evaluated from left to right, every product and every sum rounded.\<close>

definition weightedSum :: "int \<Rightarrow> int \<Rightarrow> int \<Rightarrow> int \<Rightarrow> int \<Rightarrow> rat" where
  "weightedSum brandVoice audience structure compliance salesTactics =
     js_add (js_add (js_add (js_add
          (js_mul (of_int brandVoice) (fl (3/10)))
          (js_mul (of_int audience) (fl (2/10))))
          (js_mul (of_int structure) (fl (15/100))))
          (js_mul (of_int compliance) (fl (25/100))))
          (js_mul (of_int salesTactics) (fl (1/10)))"

definition calculateOverallScore ::
  "BrandVoiceAnalysis \<Rightarrow> AudienceAnalysis \<Rightarrow> StructureAnalysis \<Rightarrow> ComplianceAnalysis
     \<Rightarrow> SalesTacticsAnalysis \<Rightarrow> int" where
  "calculateOverallScore brandVoiceAnalysis audienceAnalysis structureAnalysis
       complianceAnalysis salesTacticsAnalysis =
     Math_round
       (weightedSum (bv_score brandVoiceAnalysis) (aa_score audienceAnalysis)
          (cs_score structureAnalysis) (cr_score complianceAnalysis)
          (st_score salesTacticsAnalysis))"

datatype ComplianceStatus = PASSED | NEEDS_IMPROVEMENT | FAILED

definition determineComplianceStatus :: "int \<Rightarrow> ComplianceStatus" where
  "determineComplianceStatus score =
     (if score \<ge> 80 then PASSED else if score \<ge> 60 then NEEDS_IMPROVEMENT else FAILED)"

datatype RedesignPriority = LOW | MEDIUM | HIGH | CRITICAL

definition determineRedesignPriority :: "int \<Rightarrow> ComplianceAnalysis \<Rightarrow> RedesignPriority" where
  "determineRedesignPriority score complianceAnalysis =
     (if score < 40 then CRITICAL
      else if score < 60 then HIGH
      else if score < 75 \<or> \<not> disclaimers_present complianceAnalysis then MEDIUM
      else LOW)"

record Recommendations =
  immediate_fixes :: "jstring list"
  structural_changes :: "jstring list"
  voice_adjustments :: "jstring list"
  compliance_additions :: "jstring list"

definition generateRecommendations ::
  "BrandVoiceAnalysis \<Rightarrow> AudienceAnalysis \<Rightarrow> StructureAnalysis \<Rightarrow> ComplianceAnalysis
     \<Rightarrow> SalesTacticsAnalysis \<Rightarrow> Recommendations" where
  "generateRecommendations brandVoiceAnalysis audienceAnalysis structureAnalysis
       complianceAnalysis salesTacticsAnalysis =
     (let voiceAdjustments = [];
          voiceAdjustments = push_if (knowledgeable_authoritative brandVoiceAnalysis < 70)
             ''Add more data, historical context, and authoritative sources'' voiceAdjustments;
          voiceAdjustments = push_if (trustworthy_transparent brandVoiceAnalysis < 70)
             ''Include more transparency about risks and processes'' voiceAdjustments;
          voiceAdjustments = push_if (protective_strategic brandVoiceAnalysis < 70)
             ''Shift from sales-focused to protective, educational tone'' voiceAdjustments;
          complianceAdditions = [];
          complianceAdditions = push_if (\<not> disclaimers_present complianceAnalysis)
             ''Add required financial disclaimers'' complianceAdditions;
          complianceAdditions = push_if (\<not> risk_disclosures complianceAnalysis)
             ''Include risk disclosure statements'' complianceAdditions;
          complianceAdditions = push_if (\<not> educational_framing complianceAnalysis)
             ''Reframe content as educational rather than promotional'' complianceAdditions;
          structuralChanges = [];
          structuralChanges = push_if (information_hierarchy structureAnalysis < 70)
             ''Improve content structure with headers and logical flow'' structuralChanges;
          structuralChanges = push_if (readability structureAnalysis < 70)
             ''Break up dense text with bullet points and shorter paragraphs'' structuralChanges;
          immediateFixes = [];
          immediateFixes = push_if (0 < length (pressure_tactics salesTacticsAnalysis))
             ''Remove pressure tactics and urgency language'' immediateFixes;
          immediateFixes = push_if (js_lt (trust_vs_push_ratio salesTacticsAnalysis) 1)
             ''Increase educational content relative to sales messaging'' immediateFixes
      in \<lparr> immediate_fixes = immediateFixes,
           structural_changes = structuralChanges,
           voice_adjustments = voiceAdjustments,
           compliance_additions = complianceAdditions \<rparr>)"

record ContentAudit =
  overall_score :: int
  compliance_status :: ComplianceStatus
  brand_voice :: BrandVoiceAnalysis
  audience_alignment :: AudienceAnalysis
  content_structure :: StructureAnalysis
  compliance_requirements :: ComplianceAnalysis
  sales_tactics :: SalesTacticsAnalysis
  recommendations :: Recommendations
  redesign_priority :: RedesignPriority

text \<open>The content type is accepted and ignored by the audit, as in the source.\<close>

definition auditContent :: "jstring \<Rightarrow> ContentAudit" where
  "auditContent content =
     (let brandVoiceAnalysis = analyzeBrandVoice content;
          audienceAnalysis = analyzeAudienceAlignment content;
          structureAnalysis = analyzeContentStructure content;
          complianceAnalysis = analyzeCompliance content;
          salesTacticsAnalysis = analyzeSalesTactics content;
          overallScore = calculateOverallScore brandVoiceAnalysis audienceAnalysis
                           structureAnalysis complianceAnalysis salesTacticsAnalysis;
          recommendations = generateRecommendations brandVoiceAnalysis audienceAnalysis
                           structureAnalysis complianceAnalysis salesTacticsAnalysis
      in \<lparr> overall_score = overallScore,
           compliance_status = determineComplianceStatus overallScore,
           brand_voice = brandVoiceAnalysis,
           audience_alignment = audienceAnalysis,
           content_structure = structureAnalysis,
           compliance_requirements = complianceAnalysis,
           sales_tactics = salesTacticsAnalysis,
           recommendations = recommendations,
           redesign_priority = determineRedesignPriority overallScore complianceAnalysis \<rparr>)"

section \<open>The brand voice engine\<close>

subsection \<open>Lookups in object literals\<close>

text \<open>
  The tables of the source are object literals read with \<open>table[key] || fallback\<close>. A
  key that is not a property of the literal itself is looked up in \<open>Object.prototype\<close>,
  whose members (functions, and the prototype object itself under \<open>__proto__\<close>) are
  all truthy; only a key found in neither place gives \<open>undefined\<close>.
\<close>

datatype 'a property = Own 'a | Inherited jstring | Undefined

definition objectPrototypeKeys :: "jstring list" where
  "objectPrototypeKeys = map js
     [''constructor'', ''__defineGetter__'', ''__defineSetter__'', ''hasOwnProperty'',
      ''__lookupGetter__'', ''__lookupSetter__'', ''isPrototypeOf'', ''propertyIsEnumerable'',
      ''toString'', ''valueOf'', ''__proto__'', ''toLocaleString'']"

definition lookup :: "(jstring \<times> 'a) list \<Rightarrow> jstring \<Rightarrow> 'a property" where
  "lookup table key =
     (case map_of table key of
        Some v \<Rightarrow> Own v
      | None \<Rightarrow> if key \<in> set objectPrototypeKeys then Inherited key else Undefined)"

text \<open>\<open>table[key] || fallback\<close>, for a table whose own values are truthy.\<close>

definition lookup_or :: "(jstring \<times> 'a) list \<Rightarrow> jstring \<Rightarrow> 'a \<Rightarrow> 'a property" where
  "lookup_or table key fallback =
     (case lookup table key of Undefined \<Rightarrow> Own fallback | p \<Rightarrow> p)"

subsection \<open>Persona guidance\<close>

record PersonaGuidance =
  persona :: jstring
  messaging_focus :: jstring
  pain_points :: "jstring list"
  value_propositions :: "jstring list"
  tone_adjustments :: jstring

definition security_seekers :: PersonaGuidance where
  "security_seekers =
     \<lparr> persona = js ''Security Seekers'',
       messaging_focus = js ''Stability, wealth preservation, protection from economic uncertainty'',
       pain_points = map js
         [''Fear of market volatility'',
          ''Concern about currency devaluation'',
          ''Distrust of traditional financial institutions'',
          ''Worry about retirement security''],
       value_propositions = map js
         [''Hedge against inflation'',
          ''Store of value with historical track record'',
          ''Portfolio diversification away from paper assets'',
          ''Tangible wealth you can hold''],
       tone_adjustments = js ''Emphasize stability, safety, and historical precedent. Use data and evidence to build confidence.'' \<rparr>"

definition growth_hunters :: PersonaGuidance where
  "growth_hunters =
     \<lparr> persona = js ''Growth Hunters'',
       messaging_focus = js ''Portfolio enhancement, diversification opportunities, strategic wealth building'',
       pain_points = map js
         [''Over-concentration in traditional investments'',
          ''Limited diversification options'',
          ''Concern about market correlations'',
          ''Seeking uncorrelated assets''],
       value_propositions = map js
         [''Portfolio diversification benefits'',
          ''Potential for appreciation during economic stress'',
          ''Uncorrelated to traditional markets'',
          ''Strategic allocation for balanced portfolio''],
       tone_adjustments = js ''Focus on strategic benefits and portfolio optimization. Emphasize smart allocation principles.'' \<rparr>"

definition legacy_builders :: PersonaGuidance where
  "legacy_builders =
     \<lparr> persona = js ''Legacy Builders'',
       messaging_focus = js ''Generational wealth, estate planning, long-term preservation'',
       pain_points = map js
         [''Wealth transfer concerns'',
          ''Estate tax implications'',
          ''Long-term value preservation'',
          ''Intergenerational planning challenges''],
       value_propositions = map js
         [''Generational wealth preservation'',
          ''Tangible assets for inheritance'',
          ''Estate planning benefits'',
          ''Long-term store of value''],
       tone_adjustments = js ''Emphasize legacy, permanence, and multi-generational thinking. Use historical examples.'' \<rparr>"

definition crisis_reactors :: PersonaGuidance where
  "crisis_reactors =
     \<lparr> persona = js ''Crisis Reactors'',
       messaging_focus = js ''Economic protection, immediate security, crisis hedging'',
       pain_points = map js
         [''Economic uncertainty and instability'',
          ''Inflation concerns'',
          ''Geopolitical risks'',
          ''Currency devaluation fears''],
       value_propositions = map js
         [''Crisis hedge and safe haven'',
          ''Protection against economic turmoil'',
          ''Maintains value during uncertainty'',
          ''Independent of government and banking systems''],
       tone_adjustments = js ''Address immediate concerns while maintaining educational approach. Focus on practical protection benefits.'' \<rparr>"

definition guidanceMap :: "(jstring \<times> PersonaGuidance) list" where
  "guidanceMap =
     [(js ''security_seekers'', security_seekers),
      (js ''growth_hunters'', growth_hunters),
      (js ''legacy_builders'', legacy_builders),
      (js ''crisis_reactors'', crisis_reactors)]"

definition getPersonaGuidance :: "jstring \<Rightarrow> PersonaGuidance property" where
  "getPersonaGuidance key = lookup_or guidanceMap key security_seekers"

subsection \<open>Brand compliance\<close>

definition complianceAggressiveTerms :: "jstring list" where
  "complianceAggressiveTerms = map js
     [''act now'', ''limited time'', ''urgent'', ''must buy'', ''don't miss out'',
      ''guaranteed returns'', ''risk-free'', ''get rich'', ''explosive growth'']"

definition complianceEducationalTerms :: "jstring list" where
  "complianceEducationalTerms = map js
     [''understand'', ''learn'', ''historical'', ''data shows'', ''research indicates'',
      ''consider'', ''evaluate'', ''analyze'', ''factors to consider'']"

definition disclaimerKeywords :: "jstring list" where
  "disclaimerKeywords = map js
     [''not investment advice'', ''past performance'', ''consult'', ''specialist'']"

record BrandCompliance =
  vc_score :: int
  vc_issues :: "jstring list"
  disclaimers_included :: bool

definition aggressiveIssue :: "jstring \<Rightarrow> jstring" where
  "aggressiveIssue term = js ''Contains aggressive sales language: '' @ [34] @ term @ [34]"

definition validateBrandCompliance :: "jstring \<Rightarrow> BrandCompliance" where
  "validateBrandCompliance content =
     (let score = 100;
          hits = found (toLowerCase content) complianceAggressiveTerms;
          issues = map aggressiveIssue hits;
          score = score - 15 * int (length hits);
          educationalCount = count_found (toLowerCase content) complianceEducationalTerms;
          issues = push_if (educationalCount < 3)
                     ''Insufficient educational language - needs more informative tone'' issues;
          score = (if educationalCount < 3 then score - 10 else score);
          disclaimersIncluded = list_ex (str_includes (toLowerCase content)) disclaimerKeywords;
          missing = (\<not> disclaimersIncluded \<and> 500 < length content);
          issues = push_if missing ''Missing required financial disclaimers'' issues;
          score = (if missing then score - 20 else score);
          slang = (str_includes content (js ''yo'') \<or> str_includes content (js ''bro'')
                   \<or> str_includes content (js ''lit''));
          issues = push_if slang ''Language not appropriate for target demographic (45-75)'' issues;
          score = (if slang then score - 15 else score)
      in \<lparr> vc_score = max 0 score,
           vc_issues = issues,
           disclaimers_included = disclaimersIncluded \<rparr>)"

subsection \<open>Replacing with regular expressions\<close>

text \<open>
  \<open>text.replace(/a|b|c/g, rep)\<close> for literal alternatives: the text is scanned from
  the left; at each position the first alternative that matches is replaced and the scan
  goes on behind the match. With the flag \<open>i\<close> two code units match when their
  canonical forms are equal; all patterns of the source are ASCII, and against an ASCII
  pattern only the ASCII letters are folded.
\<close>

definition canon :: "nat \<Rightarrow> nat" where
  "canon c = (if 97 \<le> c \<and> c \<le> 122 then c - 32 else c)"

definition matches_at :: "bool \<Rightarrow> jstring \<Rightarrow> jstring \<Rightarrow> bool" where
  "matches_at ci pat s = (if ci then prefix (map canon pat) (map canon s) else prefix pat s)"

definition first_match :: "bool \<Rightarrow> jstring list \<Rightarrow> jstring \<Rightarrow> jstring option" where
  "first_match ci alts s = find (\<lambda>a. a \<noteq> [] \<and> matches_at ci a s) alts"

function replace_all :: "bool \<Rightarrow> jstring list \<Rightarrow> jstring \<Rightarrow> jstring \<Rightarrow> jstring" where
  "replace_all ci alts rep [] = []"
| "replace_all ci alts rep (c # cs) =
     (case first_match ci alts (c # cs) of
        Some a \<Rightarrow> rep @ replace_all ci alts rep (drop (length a) (c # cs))
      | None \<Rightarrow> c # replace_all ci alts rep cs)"
  by pat_completeness auto
termination
  by (relation "measure (\<lambda>(ci, alts, rep, s). length s)")
     (auto simp: first_match_def find_Some_iff)

subsection \<open>Brand voice transformation\<close>

definition applyBrandVoiceTransformation :: "jstring \<Rightarrow> jstring" where
  "applyBrandVoiceTransformation request =
     (let transformedRequest = request;
          transformedRequest = replace_all True
             (map js [''urgent'', ''hurry'', ''act now'', ''limited time''])
             (js ''consider the importance of'') transformedRequest;
          transformedRequest = replace_all True
             (map js [''buy now'', ''purchase immediately''])
             (js ''explore the benefits of'') transformedRequest;
          transformedRequest = replace_all True
             (map js [''guaranteed returns'', ''risk-free''])
             (js ''historically demonstrated potential for'') transformedRequest;
          transformedRequest = replace_all True
             (map js [''get rich'', ''explosive growth''])
             (js ''wealth preservation and potential appreciation'') transformedRequest;
          transformedRequest = replace_all True
             (map js [''don't miss out'', ''last chance''])
             (js ''understanding the opportunity of'') transformedRequest
      in if str_includes (toLowerCase transformedRequest) (js ''sell'')
            \<or> str_includes (toLowerCase transformedRequest) (js ''convince'')
         then js ''Create educational content about precious metals that helps readers understand ''
              @ replace_all False (map js [''sell'', ''convince'']) (js ''the benefits of'')
                  (toLowerCase transformedRequest)
         else transformedRequest)"

section \<open>The content generator\<close>

text \<open>
  The generator fills a fixed template three times. The prompts it builds on the way
  are not used for the content; what remains of building them is the exception of
  \<open>buildFrameworkPrompt\<close> on a persona guidance without pain points. The SEO metadata
  (with its time stamp) is left out.
\<close>

datatype error = TypeError

record ContentRequest =
  rq_content_type :: jstring
  rq_topic :: jstring
  rq_target_audience :: "jstring option"

definition blogTemplate :: "jstring \<Rightarrow> jstring" where
  "blogTemplate topic =
     js ''# Understanding '' @ topic @ js '': A Guide for Informed Investors\<newline>\<newline>'' @
     js ''The world of precious metals investing can seem complex, but understanding '' @ topic @ js '' is essential for anyone considering portfolio diversification. Let's explore this topic through the lens of historical context and practical application.\<newline>\<newline>'' @
     js ''## Historical Perspective\<newline>\<newline>'' @
     js ''Throughout history, precious metals have served as a store of value during economic uncertainty...\<newline>\<newline>'' @
     js ''## Current Market Analysis\<newline>\<newline>'' @
     js ''Today's market conditions present unique considerations for investors evaluating '' @ topic @ js ''...\<newline>\<newline>'' @
     js ''## Educational Takeaways\<newline>\<newline>'' @
     js ''For investors seeking to understand '' @ topic @ js '', several key factors deserve consideration:\<newline>\<newline>'' @
     js ''- Historical performance data\<newline>'' @
     js ''- Market fundamentals\<newline>'' @
     js ''- Economic factors\<newline>'' @
     js ''- Portfolio allocation principles\<newline>\<newline>'' @
     js ''## Next Steps\<newline>\<newline>'' @
     js ''Understanding '' @ topic @ js '' is just the beginning of your educational journey in precious metals investing.''"

definition emailTemplate :: "jstring \<Rightarrow> jstring" where
  "emailTemplate topic =
     js ''Subject: Understanding '' @ topic @ js '' - Educational Insights for Investors\<newline>\<newline>'' @
     js ''Dear Valued Investor,\<newline>\<newline>'' @
     js ''As economic conditions continue to evolve, many investors are seeking to understand '' @ topic @ js '' and its role in a diversified portfolio.\<newline>\<newline>'' @
     js ''Today, I'd like to share some educational insights that can help you make more informed decisions...\<newline>\<newline>'' @
     js ''Key considerations include:\<newline>'' @
     js ''- Historical context and performance\<newline>'' @
     js ''- Current market dynamics\<newline>'' @
     js ''- Portfolio allocation principles\<newline>\<newline>'' @
     js ''If you'd like to learn more about '' @ topic @ js '', I invite you to download our free educational guide.\<newline>\<newline>'' @
     js ''Best regards,\<newline>'' @
     js ''The Liberty Gold Silver Team''"

definition landingPageTemplate :: "jstring \<Rightarrow> jstring" where
  "landingPageTemplate topic =
     js ''# '' @ topic @ js '': Your Guide to Informed Precious Metals Investing\<newline>\<newline>'' @
     js ''Are you seeking to understand '' @ topic @ js '' and its potential role in your investment portfolio? You've come to the right place for unbiased, educational information.\<newline>\<newline>'' @
     js ''## Why Understanding '' @ topic @ js '' Matters\<newline>\<newline>'' @
     js ''In today's economic climate, informed investors are exploring all options for portfolio diversification and wealth preservation...\<newline>\<newline>'' @
     js ''## What You'll Learn\<newline>\<newline>'' @
     js ''Our comprehensive educational approach covers:\<newline>'' @
     js ''- Historical analysis and precedent\<newline>'' @
     js ''- Current market considerations\<newline>'' @
     js ''- Portfolio integration strategies\<newline>'' @
     js ''- Risk assessment frameworks\<newline>\<newline>'' @
     js ''## Get Your Free Educational Guide\<newline>\<newline>'' @
     js ''Download our comprehensive guide to understanding '' @ topic @ js '' and precious metals investing.''"

definition marketUpdateTemplate :: "jstring \<Rightarrow> jstring" where
  "marketUpdateTemplate topic =
     js ''# Market Update: '' @ topic @ js '' Analysis\<newline>\<newline>'' @
     js ''## Current Market Conditions\<newline>\<newline>'' @
     js ''Recent market data shows interesting developments regarding '' @ topic @ js ''. Let's examine these trends through an educational lens.\<newline>\<newline>'' @
     js ''## Key Data Points\<newline>\<newline>'' @
     js ''- Current pricing trends\<newline>'' @
     js ''- Volume analysis\<newline>'' @
     js ''- Historical comparison\<newline>'' @
     js ''- Economic factors\<newline>\<newline>'' @
     js ''## Educational Analysis\<newline>\<newline>'' @
     js ''For investors seeking to understand these market movements, several factors warrant consideration...\<newline>\<newline>'' @
     js ''## Takeaway for Investors\<newline>\<newline>'' @
     js ''Understanding '' @ topic @ js '' in the current market context requires careful analysis of multiple factors...''"

definition webpageTemplate :: "jstring \<Rightarrow> jstring" where
  "webpageTemplate topic =
     js ''# '' @ topic @ js '': Educational Resource for Precious Metals Investors\<newline>\<newline>'' @
     js ''Welcome to our comprehensive educational resource on '' @ topic @ js ''. Our mission is simple: provide you with the knowledge needed to make informed decisions about precious metals investing.\<newline>\<newline>'' @
     js ''## Understanding the Fundamentals\<newline>\<newline>'' @
     topic @ js '' represents an important concept in precious metals investing. To truly understand its implications, we need to examine both historical context and current market realities.\<newline>\<newline>'' @
     js ''## Historical Analysis\<newline>\<newline>'' @
     js ''Throughout economic history, precious metals have played a crucial role in wealth preservation...\<newline>\<newline>'' @
     js ''## Current Market Perspective\<newline>\<newline>'' @
     js ''Today's investment landscape presents unique considerations for those evaluating '' @ topic @ js ''...\<newline>\<newline>'' @
     js ''## Educational Resources\<newline>\<newline>'' @
     js ''We believe in empowering investors through education. That's why we provide comprehensive resources to help you understand '' @ topic @ js '' and its place in modern portfolio management.''"

definition templates :: "jstring \<Rightarrow> (jstring \<times> jstring) list" where
  "templates topic =
     [(js ''blog'', blogTemplate topic),
      (js ''email'', emailTemplate topic),
      (js ''landing_page'', landingPageTemplate topic),
      (js ''market_update'', marketUpdateTemplate topic),
      (js ''webpage'', webpageTemplate topic)]"

definition getBaseTemplate :: "jstring \<Rightarrow> jstring \<Rightarrow> jstring property" where
  "getBaseTemplate contentType topic = lookup_or (templates topic) contentType (blogTemplate topic)"

definition enhanceEngagement :: "jstring \<Rightarrow> jstring" where
  "enhanceEngagement content =
     replace_all False [js ''It's important to''] (js ''What's particularly important is to'')
       (replace_all False [js ''Consider this:''] (js ''Here's something worth considering:'')
         (replace_all False [js ''Throughout history,'']
            (js ''Think of it this way: throughout history,'') content))"

definition applyTechnicalPolish :: "jstring \<Rightarrow> jstring" where
  "applyTechnicalPolish content = trim (replace_all False [[10, 10]] [10, 10] content)"

datatype pass = framework | engagement | technical

text \<open>A base template that is an inherited member is not a string: the first pass
  returns it as it is, the other two call \<open>replace\<close> on it, which it does not have.\<close>

definition generateTemplateContent :: "jstring \<Rightarrow> jstring \<Rightarrow> pass \<Rightarrow> error + jstring property" where
  "generateTemplateContent topic contentType p =
     (let baseContent = getBaseTemplate contentType topic
      in case p of
           framework \<Rightarrow> Inr baseContent
         | engagement \<Rightarrow>
             (case baseContent of Own s \<Rightarrow> Inr (Own (enhanceEngagement s)) | _ \<Rightarrow> Inl TypeError)
         | technical \<Rightarrow>
             (case baseContent of Own s \<Rightarrow> Inr (Own (applyTechnicalPolish s)) | _ \<Rightarrow> Inl TypeError))"

text \<open>The text that a template literal inserts for a value: a string itself, and for an
  inherited member what \<open>String\<close> gives for it.\<close>

definition templateText :: "jstring property \<Rightarrow> jstring" where
  "templateText v =
     (case v of
        Own s \<Rightarrow> s
      | Inherited k \<Rightarrow>
          if k = js ''__proto__'' then js ''[object Object]''
          else js ''function '' @ (if k = js ''constructor'' then js ''Object'' else k)
               @ js ''() { [native code] }''
      | Undefined \<Rightarrow> js ''undefined'')"

text \<open>\<open>buildFrameworkPrompt\<close> reads \<open>personaGuidance.pain_points.join\<close> when the guidance
  is truthy.\<close>

definition generatePass1Framework ::
  "jstring \<Rightarrow> ContentRequest \<Rightarrow> PersonaGuidance property option \<Rightarrow> error + jstring property" where
  "generatePass1Framework topic request personaGuidance =
     (case personaGuidance of
        Some (Inherited k) \<Rightarrow> Inl TypeError
      | _ \<Rightarrow> generateTemplateContent topic (rq_content_type request) framework)"

definition generatePass2Engagement :: "jstring property \<Rightarrow> ContentRequest \<Rightarrow> error + jstring property" where
  "generatePass2Engagement content request =
     generateTemplateContent (templateText content) (rq_content_type request) engagement"

definition investmentDisclaimer :: jstring where
  "investmentDisclaimer =
     js ''\<newline>\<newline>**Important Disclosure**: This information is for educational purposes only and is not intended as investment advice. Past performance does not guarantee future results. Please consult with a precious metals specialist to discuss your specific situation and investment objectives.''"

definition generalDisclaimer :: jstring where
  "generalDisclaimer =
     js ''\<newline>\<newline>**Educational Disclaimer**: The information provided is for educational purposes only. Liberty Gold Silver specializes in precious metals, not general financial advice. Please consult appropriate professionals for personalized guidance.''"

definition addRequiredDisclaimers :: "jstring \<Rightarrow> jstring" where
  "addRequiredDisclaimers content =
     (let disclaimer =
            (if str_includes (toLowerCase content) (js ''invest'')
                \<or> str_includes (toLowerCase content) (js ''portfolio'')
                \<or> str_includes (toLowerCase content) (js ''return'')
             then investmentDisclaimer else generalDisclaimer)
      in content @ disclaimer)"

definition generatePass3Technical :: "jstring property \<Rightarrow> ContentRequest \<Rightarrow> error + jstring" where
  "generatePass3Technical content request =
     (case generateTemplateContent (templateText content) (rq_content_type request) technical of
        Inl e \<Rightarrow> Inl e
      | Inr polishedContent \<Rightarrow> Inr (addRequiredDisclaimers (templateText polishedContent)))"

record ContentOutput =
  co_content :: jstring
  co_compliance_status :: BrandCompliance
  pass_1_framework :: "jstring property"
  pass_2_engagement :: "jstring property"
  pass_3_technical :: jstring

definition generateContent :: "ContentRequest \<Rightarrow> error + ContentOutput" where
  "generateContent request =
     (let transformedTopic = applyBrandVoiceTransformation (rq_topic request);
          personaGuidance =
            (if rq_target_audience request \<noteq> Some (js ''auto_detect'')
             then Some (getPersonaGuidance
                    (case rq_target_audience request of
                       None \<Rightarrow> js ''security_seekers''
                     | Some a \<Rightarrow> if a = [] then js ''security_seekers'' else a))
             else None)
      in case generatePass1Framework transformedTopic request personaGuidance of
           Inl e \<Rightarrow> Inl e
         | Inr pass1Content \<Rightarrow>
        (case generatePass2Engagement pass1Content request of
           Inl e \<Rightarrow> Inl e
         | Inr pass2Content \<Rightarrow>
        (case generatePass3Technical pass2Content request of
           Inl e \<Rightarrow> Inl e
         | Inr finalContent \<Rightarrow>
             Inr \<lparr> co_content = finalContent,
                   co_compliance_status = validateBrandCompliance finalContent,
                   pass_1_framework = pass1Content,
                   pass_2_engagement = pass2Content,
                   pass_3_technical = finalContent \<rparr>)))"

section \<open>The content redesigner\<close>

record RedesignRequest =
  original_content :: jstring
  content_type :: "jstring option"
  target_audience :: "jstring option"
  preserve_key_information :: "bool option"
  redesign_intensity :: "jstring option"
  specific_requirements :: "jstring list"

subsection \<open>Key information\<close>

record KeyInformation =
  facts :: "jstring list"
  statistics :: "jstring list"
  key_concepts :: "jstring list"
  company_specific :: "jstring list"

text \<open>\<open>content.split('.').map(s => s.trim()).filter(s => s.length > 0)\<close>.\<close>

definition trimmedSentences :: "jstring \<Rightarrow> jstring list" where
  "trimmedSentences content = filter (\<lambda>s. 0 < length s) (map trim (split (js ''.'') content))"

definition factualIndicators :: "jstring list" where
  "factualIndicators = map js
     [''according to'', ''data shows'', ''research indicates'', ''studies show'',
      ''history shows'', ''since 1971'', ''federal reserve'', ''treasury'',
      ''was established'', ''has been'', ''is regulated by'']"

definition extractFacts :: "jstring \<Rightarrow> jstring list" where
  "extractFacts content =
     take 10 (map trim
       (filter (\<lambda>sentence. list_ex (str_includes (toLowerCase sentence)) factualIndicators)
          (trimmedSentences content)))"

definition re_statistic :: "jstring \<Rightarrow> bool" where \<comment> \<open>\<open>/\d+%|\$\d+|\d{4}|\d+\.\d+/\<close>\<close>
  "re_statistic s = (re_percent s \<or> re_dollar s \<or> re_d4 s \<or> re_decimal s)"

definition extractStatistics :: "jstring \<Rightarrow> jstring list" where
  "extractStatistics content =
     take 8 (map trim (filter (anywhere re_statistic) (trimmedSentences content)))"

definition importantConcepts :: "jstring list" where
  "importantConcepts = map js
     [''gold ira'', ''precious metals'', ''portfolio diversification'', ''inflation hedge'',
      ''wealth preservation'', ''economic uncertainty'', ''store of value'',
      ''physical possession'', ''tax advantages'', ''retirement planning'']"

definition extractKeyConcepts :: "jstring \<Rightarrow> jstring list" where
  "extractKeyConcepts content = found (toLowerCase content) importantConcepts"

definition companyIndicators :: "jstring list" where
  "companyIndicators = map js
     [''our process'', ''we provide'', ''our team'', ''our approach'',
      ''we believe'', ''our mission'', ''liberty gold silver'']"

definition extractCompanySpecific :: "jstring \<Rightarrow> jstring list" where
  "extractCompanySpecific content =
     take 5 (map trim
       (filter (\<lambda>sentence. list_ex (str_includes (toLowerCase sentence)) companyIndicators)
          (trimmedSentences content)))"

definition extractKeyInformation :: "jstring \<Rightarrow> KeyInformation" where
  "extractKeyInformation content =
     \<lparr> facts = extractFacts content,
       statistics = extractStatistics content,
       key_concepts = extractKeyConcepts content,
       company_specific = extractCompanySpecific content \<rparr>"

subsection \<open>Helpers of the transformations\<close>

text \<open>The terms come from the audit's table of aggressive terms, none of which is an
  inherited property name.\<close>

definition aggressiveReplacements :: "(jstring \<times> jstring) list" where
  "aggressiveReplacements =
     [(js ''guaranteed returns'', js ''potential for appreciation''),
      (js ''risk-free'', js ''traditionally stable''),
      (js ''get rich'', js ''build wealth''),
      (js ''explosive growth'', js ''potential appreciation''),
      (js ''fortune'', js ''financial security'')]"

definition getAggressiveTermReplacement :: "jstring \<Rightarrow> jstring" where
  "getAggressiveTermReplacement term =
     (case map_of aggressiveReplacements (toLowerCase term) of
        Some r \<Rightarrow> r
      | None \<Rightarrow> js ''potential benefits'')"

definition getAppropriateDisclaimer :: "jstring \<Rightarrow> jstring" where
  "getAppropriateDisclaimer content =
     (if str_includes (toLowerCase content) (js ''invest'')
         \<or> str_includes (toLowerCase content) (js ''portfolio'')
      then investmentDisclaimer else generalDisclaimer)"

definition generateTitle :: "jstring \<Rightarrow> jstring" where
  "generateTitle content =
     (if str_includes (toLowerCase content) (js ''gold ira'')
      then js ''Understanding Gold IRAs: A Guide for Informed Investors''
      else if str_includes (toLowerCase content) (js ''silver'')
      then js ''Silver Investing: Educational Insights for Portfolio Diversification''
      else if str_includes (toLowerCase content) (js ''precious metals'')
      then js ''Precious Metals Education: Building Knowledge for Informed Decisions''
      else js ''Educational Guide: Understanding Precious Metals Investing'')"

definition extractCoreTheme :: "jstring \<Rightarrow> jstring" where
  "extractCoreTheme content =
     (let contentLower = toLowerCase content
      in if str_includes contentLower (js ''gold ira'') then js ''Gold IRA benefits and considerations''
         else if str_includes contentLower (js ''silver investing'') then js ''Silver investment fundamentals''
         else if str_includes contentLower (js ''inflation'') then js ''Precious metals as inflation hedge''
         else if str_includes contentLower (js ''retirement'') then js ''Precious metals in retirement planning''
         else js ''Precious metals investment education'')"

definition enhanceAuthoritativeness :: "jstring \<Rightarrow> jstring" where
  "enhanceAuthoritativeness content =
     replace_all True [js ''Maybe''] (js ''Evidence suggests'')
       (replace_all True [js ''It seems''] (js ''Analysis shows'')
         (replace_all True [js ''I think''] (js ''Research indicates'') content))"

definition improveTrustworthiness :: "jstring \<Rightarrow> jstring" where
  "improveTrustworthiness content =
     (if \<not> str_includes (toLowerCase content) (js ''risk'')
      then content @ js '' It's important to understand that all investments carry risk and require careful consideration.''
      else content)"

definition increaseProtectiveness :: "jstring \<Rightarrow> jstring" where
  "increaseProtectiveness content =
     replace_all True [js ''get yours''] (js ''understand the value of'')
       (replace_all True [js ''purchase''] (js ''explore'')
         (replace_all True [js ''buy now''] (js ''consider the benefits of'') content))"

text \<open>\<open>content.replace(/([.!?])\s+([A-Z])/g, '$1\n\n$2')\<close>.\<close>

function breakUpLongParagraphs :: "jstring \<Rightarrow> jstring" where
  "breakUpLongParagraphs [] = []"
| "breakUpLongParagraphs (c # cs) =
     (if c \<in> set [46, 33, 63] \<and> takeWhile isSpace cs \<noteq> []
      then (case dropWhile isSpace cs of
              [] \<Rightarrow> c # breakUpLongParagraphs cs
            | d # ds \<Rightarrow> if isUpperAZ d then c # 10 # 10 # d # breakUpLongParagraphs ds
                       else c # breakUpLongParagraphs cs)
      else c # breakUpLongParagraphs cs)"
  by pat_completeness auto
termination
proof (relation "measure length", goal_cases)
  case 1
  show ?case by simp
next
  case (2 c cs)
  show ?case by simp
next
  case (3 c cs d ds)
  have "length (dropWhile isSpace cs) \<le> length cs" by (rule length_dropWhile_le)
  with 3 show ?case by simp
next
  case (4 c cs d ds)
  show ?case by simp
next
  case (5 c cs)
  show ?case by simp
qed

text \<open>
  \<open>convertToLists\<close> replaces with the expression
  \<open>/([^.]+)(benefits|advantages|factors|considerations|reasons)([^.]+:)\s*([^.]+,\s*[^.]+,\s*[^.]+)/gi\<close>
  by \<open>'$1$2$3\n\<bullet> $4'\<close>. No part of the expression matches a full stop, the first
  group and the last repetition take whatever is not one: a match, if there is one,
  covers a whole stretch between two full stops, and the replacement changes the white
  space between the colon of group 3 and group 4 into a line break and a bullet. The
  greedy repetitions fix which keyword and which colon: the last keyword, then the last
  colon behind it, then the longest white space for which the rest still matches.
\<close>

definition listKeywords :: "jstring list" where
  "listKeywords = map js [''benefits'', ''advantages'', ''factors'', ''considerations'', ''reasons'']"

text \<open>Group 4, \<open>[^.]+,\s*[^.]+,\s*[^.]+\<close>, matches at the start of a text without full
  stops.\<close>

definition re_items :: "jstring \<Rightarrow> bool" where
  "re_items r =
     (case r of [] \<Rightarrow> False
      | a # r1 \<Rightarrow>
     (case dropWhile (\<lambda>x. x \<noteq> 44) r1 of [] \<Rightarrow> False
      | comma # r2 \<Rightarrow>
     (case r2 of [] \<Rightarrow> False
      | b # r3 \<Rightarrow> anywhere (\<lambda>s. case s of x # y # ys \<Rightarrow> x = 44 | _ \<Rightarrow> False) r3)))"

definition items_offset :: "jstring \<Rightarrow> nat option" where
  "items_offset u =
     find (\<lambda>w. re_items (drop w u)) (rev [0..<Suc (length (takeWhile isSpace u))])"

definition colon_offset :: "jstring \<Rightarrow> nat option" where
  "colon_offset t =
     find (\<lambda>c. t ! c = 58 \<and> items_offset (drop (Suc c) t) \<noteq> None) (rev [1..<length t])"

definition keyword_at :: "jstring \<Rightarrow> jstring option" where
  "keyword_at s = find (\<lambda>k. matches_at True k s) listKeywords"

definition keyword_offset :: "jstring \<Rightarrow> nat option" where
  "keyword_offset seg =
     find (\<lambda>j. case keyword_at (drop j seg) of
                  None \<Rightarrow> False
                | Some k \<Rightarrow> colon_offset (drop (j + length k) seg) \<noteq> None)
          (rev [1..<length seg])"

definition convertSegment :: "jstring \<Rightarrow> jstring" where
  "convertSegment seg =
     (case keyword_offset seg of None \<Rightarrow> seg
      | Some j \<Rightarrow>
     (case keyword_at (drop j seg) of None \<Rightarrow> seg
      | Some k \<Rightarrow>
     (let t = drop (j + length k) seg
      in case colon_offset t of None \<Rightarrow> seg
      | Some c \<Rightarrow>
     (let u = drop (Suc c) t
      in case items_offset u of None \<Rightarrow> seg
      | Some w \<Rightarrow> take (j + length k + Suc c) seg @ [10, 8226, 32] @ drop w u))))"

definition convertToLists :: "jstring \<Rightarrow> jstring" where
  "convertToLists content = join (js ''.'') (map convertSegment (split (js ''.'') content))"

definition identifySections :: "jstring list \<Rightarrow> jstring list" where
  "identifySections paragraphs =
     (if 0 < length paragraphs then [js ''Introduction''] else [])
     @ (if 2 < length paragraphs then [js ''Key Benefits''] else [])
     @ (if 4 < length paragraphs then [js ''Important Considerations''] else [])
     @ (if 6 < length paragraphs then [js ''Next Steps''] else [])"

definition addSectionHeaders :: "jstring \<Rightarrow> jstring list \<Rightarrow> jstring" where
  "addSectionHeaders content sections =
     (let paragraphs = split [10, 10] content
      in concat (map (\<lambda>i.
           (if 0 < i \<and> i < length sections + 1
            then [10, 10] @ js ''## '' @ sections ! (i - 1) @ [10, 10] else [])
           @ paragraphs ! i
           @ (if i < length paragraphs - 1 then [10, 10] else []))
         [0..<length paragraphs]))"

definition applyPersonaLanguage :: "jstring \<Rightarrow> PersonaGuidance property \<Rightarrow> jstring" where
  "applyPersonaLanguage content guidance =
     (case guidance of
        Own g \<Rightarrow>
          if persona g = js ''Security Seekers''
          then replace_all True [js ''opportunity''] (js ''secure opportunity'')
                 (replace_all True [js ''growth''] (js ''stability and growth'') content)
          else content
      | _ \<Rightarrow> content)"

definition adjustComplexity :: "jstring \<Rightarrow> jstring" where
  "adjustComplexity content =
     replace_all True [js ''subsequently''] (js ''then'')
       (replace_all True [js ''facilitate''] (js ''help'')
         (replace_all True [js ''utilize''] (js ''use'') content))"

definition inappropriateTerms :: "jstring list" where
  "inappropriateTerms = map js [''yo'', ''bro'', ''lit'', ''fire'', ''sick'']"

definition removeInappropriateLanguage :: "jstring \<Rightarrow> jstring" where
  "removeInappropriateLanguage content =
     foldl (\<lambda>cleaned term. replace_all True [term] [] cleaned) content inappropriateTerms"

definition addRiskDisclosures :: "jstring \<Rightarrow> jstring" where
  "addRiskDisclosures content =
     (if \<not> str_includes (toLowerCase content) (js ''risk'')
      then content @ js '' Please remember that all investments involve risk and past performance does not guarantee future results.''
      else content)"

definition addEducationalFraming :: "jstring \<Rightarrow> jstring" where
  "addEducationalFraming content =
     (if \<not> str_includes (toLowerCase content) (js ''understand'')
         \<and> \<not> str_includes (toLowerCase content) (js ''education'')
      then js ''Understanding the fundamentals is crucial for informed decision-making. '' @ content
      else content)"

definition insertStatistic :: "jstring \<Rightarrow> jstring \<Rightarrow> jstring" where
  "insertStatistic content stat =
     (let sentences = split (js ''.'') content
      in if 2 < length sentences
         then join (js ''.'') (take 2 sentences @ [32 # stat] @ drop 2 sentences)
         else content @ 32 # stat)"

definition insertFact :: "jstring \<Rightarrow> jstring \<Rightarrow> jstring" where
  "insertFact content factText =
     (let paragraphs = split [10, 10] content
      in if 1 < length paragraphs
         then join [10, 10] (take 1 paragraphs @ [factText] @ drop 1 paragraphs)
         else content @ [10, 10] @ factText)"

text \<open>\<open>content.replace(/\s+/g, ' ')\<close>.\<close>

function collapseWhitespace :: "jstring \<Rightarrow> jstring" where
  "collapseWhitespace [] = []"
| "collapseWhitespace (c # cs) =
     (if isSpace c then 32 # collapseWhitespace (dropWhile isSpace cs)
      else c # collapseWhitespace cs)"
  by pat_completeness auto
termination
  by (relation "measure length") (auto simp: length_dropWhile_le less_Suc_eq_le)

text \<open>\<open>content.replace(/\n\s*\n\s*\n/g, '\n\n')\<close>: a line feed whose following white space
  holds two more line feeds is replaced, with that white space up to its last line feed.\<close>

function collapseBlankLines :: "jstring \<Rightarrow> jstring" where
  "collapseBlankLines [] = []"
| "collapseBlankLines (c # cs) =
     (let w = takeWhile isSpace cs
      in if c = 10 \<and> 2 \<le> length (filter (\<lambda>x. x = 10) w)
         then 10 # 10 # collapseBlankLines
                (drop (length w - length (takeWhile (\<lambda>x. x \<noteq> 10) (rev w))) cs)
         else c # collapseBlankLines cs)"
  by pat_completeness auto
termination
  by (relation "measure length") auto

subsection \<open>The three intensities\<close>

definition performLightRedesign :: "jstring \<Rightarrow> ContentAudit \<Rightarrow> KeyInformation option \<Rightarrow> jstring" where
  "performLightRedesign originalContent audit keyInfo =
     (let content = originalContent;
          content = foldl (\<lambda>content term.
                       replace_all True [term] (getAggressiveTermReplacement term) content)
                     content (aggressive_terms (sales_tactics audit));
          content = foldl (\<lambda>content tactic. replace_all True [tactic] [] content)
                     content (pressure_tactics (sales_tactics audit));
          content = (if \<not> disclaimers_present (compliance_requirements audit)
                     then content @ getAppropriateDisclaimer content else content);
          content = trim (collapseBlankLines (collapseWhitespace content))
      in content)"

definition improveContentStructure :: "jstring \<Rightarrow> KeyInformation option \<Rightarrow> jstring" where
  "improveContentStructure content keyInfo =
     (let improved = content;
          paragraphs = paragraphsOf improved;
          improved =
            (if 3 < length paragraphs \<and> \<not> str_includes improved (js ''#'')
             then (let title = generateTitle content;
                       improved = js ''# '' @ title @ [10, 10] @ improved
                   in if 5 < length paragraphs
                      then addSectionHeaders improved (identifySections paragraphs)
                      else improved)
             else improved);
          improved = breakUpLongParagraphs improved;
          improved = convertToLists improved
      in improved)"

definition transformBrandVoice :: "jstring \<Rightarrow> ContentAudit \<Rightarrow> jstring" where
  "transformBrandVoice content audit =
     (let transformed = applyBrandVoiceTransformation content;
          transformed = (if knowledgeable_authoritative (brand_voice audit) < 70
                         then enhanceAuthoritativeness transformed else transformed);
          transformed = (if trustworthy_transparent (brand_voice audit) < 70
                         then improveTrustworthiness transformed else transformed);
          transformed = (if protective_strategic (brand_voice audit) < 70
                         then increaseProtectiveness transformed else transformed)
      in transformed)"

text \<open>\<open>value || fallback\<close> for an optional string: the empty string is falsy too.\<close>

definition or_default :: "jstring option \<Rightarrow> jstring \<Rightarrow> jstring" where
  "or_default v fallback = (case v of None \<Rightarrow> fallback | Some a \<Rightarrow> if a = [] then fallback else a)"

definition improveAudienceAlignment :: "jstring \<Rightarrow> jstring option \<Rightarrow> jstring" where
  "improveAudienceAlignment content targetAudience =
     (let key = or_default targetAudience (js ''security_seekers'');
          guidance = getPersonaGuidance key;
          aligned = applyPersonaLanguage content guidance;
          aligned = adjustComplexity aligned;
          aligned = removeInappropriateLanguage aligned
      in aligned)"

definition ensureCompliance :: "jstring \<Rightarrow> ContentAudit \<Rightarrow> jstring" where
  "ensureCompliance content audit =
     (let compliant = content;
          compliant = (if \<not> disclaimers_present (compliance_requirements audit)
                       then compliant @ getAppropriateDisclaimer compliant else compliant);
          compliant = (if \<not> risk_disclosures (compliance_requirements audit)
                       then addRiskDisclosures compliant else compliant);
          compliant = (if \<not> educational_framing (compliance_requirements audit)
                       then addEducationalFraming compliant else compliant)
      in compliant)"

definition weaveInKeyInformation :: "jstring \<Rightarrow> KeyInformation \<Rightarrow> jstring" where
  "weaveInKeyInformation content keyInfo =
     (let enhanced = content;
          enhanced = foldl (\<lambda>enhanced stat.
                        if \<not> str_includes enhanced stat then insertStatistic enhanced stat
                        else enhanced)
                      enhanced (take 3 (statistics keyInfo));
          enhanced = foldl (\<lambda>enhanced factText.
                        if \<not> str_includes enhanced factText then insertFact enhanced factText
                        else enhanced)
                      enhanced (take 2 (facts keyInfo))
      in enhanced)"

definition performModerateRedesign ::
  "jstring \<Rightarrow> ContentAudit \<Rightarrow> RedesignRequest \<Rightarrow> KeyInformation option \<Rightarrow> jstring" where
  "performModerateRedesign originalContent audit request keyInfo =
     (let content = improveContentStructure originalContent keyInfo;
          content = transformBrandVoice content audit;
          content = improveAudienceAlignment content (target_audience request);
          content = ensureCompliance content audit;
          content = (case keyInfo of None \<Rightarrow> content
                     | Some k \<Rightarrow> weaveInKeyInformation content k)
      in trim content)"

definition performCompleteRedesign ::
  "jstring \<Rightarrow> ContentAudit \<Rightarrow> RedesignRequest \<Rightarrow> KeyInformation option \<Rightarrow> error + jstring" where
  "performCompleteRedesign originalContent audit request keyInfo =
     (let coreTheme = extractCoreTheme originalContent;
          newContentRequest =
            \<lparr> rq_content_type = or_default (content_type request) (js ''blog''),
              rq_topic = coreTheme,
              rq_target_audience =
                Some (or_default (target_audience request) (js ''security_seekers'')) \<rparr>
      in case generateContent newContentRequest of
           Inl e \<Rightarrow> Inl e
         | Inr generatedResult \<Rightarrow>
             (let newContent = co_content generatedResult
              in Inr (case keyInfo of None \<Rightarrow> newContent
                      | Some k \<Rightarrow> weaveInKeyInformation newContent k)))"

definition performRedesign ::
  "jstring \<Rightarrow> ContentAudit \<Rightarrow> RedesignRequest \<Rightarrow> KeyInformation option \<Rightarrow> error + jstring" where
  "performRedesign originalContent audit request keyInfo =
     (let intensity = or_default (redesign_intensity request) (js ''moderate'')
      in if intensity = js ''light''
         then Inr (performLightRedesign originalContent audit keyInfo)
         else if intensity = js ''moderate''
         then Inr (performModerateRedesign originalContent audit request keyInfo)
         else if intensity = js ''complete''
         then performCompleteRedesign originalContent audit request keyInfo
         else Inr (performModerateRedesign originalContent audit request keyInfo))"

subsection \<open>The redesign\<close>

record ImprovementMetrics =
  overall_score_change :: int
  brand_voice_improvement :: int
  compliance_improvement :: int
  audience_alignment_improvement :: int

definition calculateImprovements :: "ContentAudit \<Rightarrow> ContentAudit \<Rightarrow> ImprovementMetrics" where
  "calculateImprovements originalAudit redesignedAudit =
     \<lparr> overall_score_change = overall_score redesignedAudit - overall_score originalAudit,
       brand_voice_improvement =
         bv_score (brand_voice redesignedAudit) - bv_score (brand_voice originalAudit),
       compliance_improvement =
         cr_score (compliance_requirements redesignedAudit)
           - cr_score (compliance_requirements originalAudit),
       audience_alignment_improvement =
         aa_score (audience_alignment redesignedAudit)
           - aa_score (audience_alignment originalAudit) \<rparr>"

text \<open>The result without the transformation summary and the SEO metadata, which are
  texts derived from the fields below.\<close>

record RedesignResult =
  redesigned_content :: jstring
  original_audit :: ContentAudit
  redesigned_audit :: ContentAudit
  improvement_metrics :: ImprovementMetrics
  final_compliance_status :: ComplianceStatus

definition redesignContent :: "RedesignRequest \<Rightarrow> error + RedesignResult" where
  "redesignContent request =
     (let originalAudit = auditContent (original_content request);
          keyInformation =
            (if preserve_key_information request \<noteq> Some False
             then Some (extractKeyInformation (original_content request)) else None)
      in case performRedesign (original_content request) originalAudit request keyInformation of
           Inl e \<Rightarrow> Inl e
         | Inr redesignedContent \<Rightarrow>
             (let redesignedAudit = auditContent redesignedContent
              in Inr \<lparr> redesigned_content = redesignedContent,
                       original_audit = originalAudit,
                       redesigned_audit = redesignedAudit,
                       improvement_metrics = calculateImprovements originalAudit redesignedAudit,
                       final_compliance_status = compliance_status redesignedAudit \<rparr>))"

section \<open>Properties\<close>

subsection \<open>Rounding to doubles\<close>

lemma roundTiesToEven_close: "\<bar>of_int (roundTiesToEven x) - x\<bar> \<le> 1/2"
proof -
  have "of_int \<lfloor>x\<rfloor> \<le> x" "x < of_int \<lfloor>x\<rfloor> + 1" by linarith+
  then show ?thesis
    unfolding roundTiesToEven_def Let_def by (auto simp: abs_le_iff)
qed

lemma binade_le:
  assumes "0 < a"
  shows "2 powi (binade a) \<le> a"
proof -
  obtain n d where nd: "quotient_of a = (n, d)" by (cases "quotient_of a")
  have dpos: "0 < d" using nd by (rule quotient_of_denom_pos)
  have a: "a = of_int n / of_int d" using nd by (rule quotient_of_div)
  have npos: "0 < n" using assms dpos a by (simp add: zero_less_divide_iff)
  let ?e = "bitlen n - bitlen d"
  have bn: "2 ^ nat (bitlen n - 1) \<le> n" using bitlen_bounds[OF npos] by simp
  have bd: "d < 2 ^ nat (bitlen d)" using bitlen_bounds[OF dpos] by simp
  have n1: "1 \<le> bitlen n" using npos bitlen_eq_zero_iff[of n] bitlen_nonneg[of n] by linarith
  have "(2::rat) powi (?e - 1) * of_int d \<le> 2 powi (?e - 1) * 2 powi (bitlen d)"
  proof -
    have "(of_int d :: rat) \<le> of_int (2 ^ nat (bitlen d))" using bd by (simp only: of_int_le_iff)
    also have "\<dots> = 2 powi (bitlen d)" by (simp add: power_int_def bitlen_nonneg)
    finally have "(of_int d :: rat) \<le> 2 powi (bitlen d)" .
    then show ?thesis by (intro mult_left_mono) auto
  qed
  also have "\<dots> = 2 powi (bitlen n - 1)"
    by (subst power_int_add[symmetric]) (auto simp: algebra_simps)
  also have "\<dots> = of_int (2 ^ nat (bitlen n - 1))" using n1 by (simp add: power_int_def)
  also have "\<dots> \<le> of_int n" using bn by (simp only: of_int_le_iff)
  finally have "(2::rat) powi (?e - 1) \<le> of_int n / of_int d"
    using dpos by (simp add: pos_le_divide_eq)
  then have low: "(2::rat) powi (?e - 1) \<le> a" using a by simp
  show ?thesis unfolding binade_def nd Let_def using low by simp
qed

lemma fl_rel_error:
  assumes "0 \<le> q"
  shows "\<bar>fl q - q\<bar> \<le> q / 2 ^ 53"
proof (cases "q = 0")
  case True then show ?thesis by (simp add: fl_def)
next
  case False
  then have qpos: "0 < q" using assms by simp
  define u :: rat where "u = 2 powi (binade \<bar>q\<bar> - 52)"
  have upos: "0 < u" unfolding u_def by simp
  have "u = 2 powi (binade q) / 2 ^ 52" unfolding u_def using qpos
    by (simp add: power_int_diff)
  also have "\<dots> \<le> q / 2 ^ 52" using binade_le[OF qpos] by (simp add: divide_right_mono)
  finally have ule: "u \<le> q / 2 ^ 52" .
  have flq: "fl q = of_int (roundTiesToEven (q / u)) * u"
    using qpos by (simp add: fl_def u_def Let_def)
  have "fl q - q = (of_int (roundTiesToEven (q / u)) - q / u) * u"
    using upos by (simp add: flq field_simps)
  then have "\<bar>fl q - q\<bar> = \<bar>of_int (roundTiesToEven (q / u)) - q / u\<bar> * u"
    using upos by (simp add: abs_mult)
  also have "\<dots> \<le> (1/2) * u"
    using roundTiesToEven_close[of "q / u"] upos by (intro mult_right_mono) auto
  also have "\<dots> \<le> (1/2) * (q / 2 ^ 52)" using ule by simp
  also have "\<dots> = q / 2 ^ 53" by simp
  finally show ?thesis .
qed

lemma fl_abs_error:
  assumes "0 \<le> q" "q \<le> 128"
  shows "\<bar>fl q - q\<bar> \<le> 1 / 1000000000000"
proof -
  have "\<bar>fl q - q\<bar> \<le> q / 2 ^ 53" using assms(1) by (rule fl_rel_error)
  also have "\<dots> \<le> 128 / 2 ^ 53" using assms(2) by (simp add: divide_right_mono)
  also have "\<dots> \<le> 1 / 1000000000000" by simp
  finally show ?thesis .
qed

lemma fl_nonneg: "0 \<le> q \<Longrightarrow> 0 \<le> fl q"
  unfolding fl_def Let_def
  by (auto simp: roundTiesToEven_def Let_def sgn_if intro!: mult_nonneg_nonneg divide_nonneg_nonneg)

lemma in_range_clamp: "in_range (clamp x)"
  by (simp add: in_range_def clamp_def)

lemma in_range_average:
  assumes "0 \<le> n" "n \<le> 100 * k" "0 < k"
  shows "in_range (Math_round (fl (of_int n / of_int k)))"
proof -
  define q :: rat where "q = of_int n / of_int k"
  have q0: "0 \<le> q" using assms by (simp add: q_def)
  have "(of_int n :: rat) \<le> of_int (100 * k)" using assms(2) by (simp only: of_int_le_iff)
  then have q100: "q \<le> 100" using assms(3) by (simp add: q_def pos_divide_le_eq)
  have e: "\<bar>fl q - q\<bar> \<le> 1 / 1000000000000" using q0 q100 by (intro fl_abs_error) auto
  have lo: "0 \<le> fl q + 1/2" using e q0 by linarith
  have hi: "fl q + 1/2 < 101" using e q100 by linarith
  have "0 \<le> \<lfloor>fl q + 1/2\<rfloor>" using lo by simp
  moreover have "\<lfloor>fl q + 1/2\<rfloor> < 101" using hi by (simp add: floor_less_iff)
  ultimately show ?thesis by (simp add: in_range_def Math_round_def q_def)
qed

lemma weights:
  "fl (3/10) = 5404319552844595 / 18014398509481984"
  "fl (2/10) = 3602879701896397 / 18014398509481984"
  "fl (15/100) = 5404319552844595 / 36028797018963968"
  "fl (25/100) = 1 / 4"
  "fl (1/10) = 3602879701896397 / 36028797018963968"
  by code_simp+

lemma weightedSum_close:
  assumes "in_range b" "in_range a" "in_range s" "in_range c" "in_range t"
  shows "\<bar>weightedSum b a s c t - of_int (30 * b + 20 * a + 15 * s + 25 * c + 10 * t) / 100\<bar>
           \<le> 1 / 50000000000"
proof -
  define B A S C T :: rat where "B = of_int b" and "A = of_int a" and "S = of_int s"
    and "C = of_int c" and "T = of_int t"
  have r: "0 \<le> B" "B \<le> 100" "0 \<le> A" "A \<le> 100" "0 \<le> S" "S \<le> 100"
          "0 \<le> C" "C \<le> 100" "0 \<le> T" "T \<le> 100"
    using assms by (simp_all add: in_range_def B_def A_def S_def C_def T_def)
  define p1 where "p1 = fl (B * (5404319552844595 / 18014398509481984))"
  define p2 where "p2 = fl (A * (3602879701896397 / 18014398509481984))"
  define p3 where "p3 = fl (S * (5404319552844595 / 36028797018963968))"
  define p4 where "p4 = fl (C * (1 / 4))"
  define p5 where "p5 = fl (T * (3602879701896397 / 36028797018963968))"
  have e1: "\<bar>p1 - B * (5404319552844595 / 18014398509481984)\<bar> \<le> 1 / 1000000000000"
    unfolding p1_def using r by (intro fl_abs_error) linarith+
  have e2: "\<bar>p2 - A * (3602879701896397 / 18014398509481984)\<bar> \<le> 1 / 1000000000000"
    unfolding p2_def using r by (intro fl_abs_error) linarith+
  have e3: "\<bar>p3 - S * (5404319552844595 / 36028797018963968)\<bar> \<le> 1 / 1000000000000"
    unfolding p3_def using r by (intro fl_abs_error) linarith+
  have e4: "\<bar>p4 - C * (1 / 4)\<bar> \<le> 1 / 1000000000000"
    unfolding p4_def using r by (intro fl_abs_error) linarith+
  have e5: "\<bar>p5 - T * (3602879701896397 / 36028797018963968)\<bar> \<le> 1 / 1000000000000"
    unfolding p5_def using r by (intro fl_abs_error) linarith+
  have n: "0 \<le> p1" "0 \<le> p2" "0 \<le> p3" "0 \<le> p4" "0 \<le> p5"
    unfolding p1_def p2_def p3_def p4_def p5_def using r by (auto intro!: fl_nonneg)
  define s2 where "s2 = fl (p1 + p2)"
  define s3 where "s3 = fl (s2 + p3)"
  define s4 where "s4 = fl (s3 + p4)"
  define s5 where "s5 = fl (s4 + p5)"
  have m2: "0 \<le> s2" unfolding s2_def using n by (auto intro!: fl_nonneg)
  have m3: "0 \<le> s3" unfolding s3_def using n m2 by (auto intro!: fl_nonneg)
  have m4: "0 \<le> s4" unfolding s4_def using n m3 by (auto intro!: fl_nonneg)
  have f2: "\<bar>s2 - (p1 + p2)\<bar> \<le> 1 / 1000000000000"
    unfolding s2_def using r n e1 e2 by (intro fl_abs_error) linarith+
  have f3: "\<bar>s3 - (s2 + p3)\<bar> \<le> 1 / 1000000000000"
    unfolding s3_def using r n m2 e1 e2 e3 f2 by (intro fl_abs_error) linarith+
  have f4: "\<bar>s4 - (s3 + p4)\<bar> \<le> 1 / 1000000000000"
    unfolding s4_def using r n m3 e1 e2 e3 e4 f2 f3 by (intro fl_abs_error) linarith+
  have f5: "\<bar>s5 - (s4 + p5)\<bar> \<le> 1 / 1000000000000"
    unfolding s5_def using r n m4 e1 e2 e3 e4 e5 f2 f3 f4 by (intro fl_abs_error) linarith+
  have ws: "weightedSum b a s c t = s5"
    by (simp only: weightedSum_def js_add_def js_mul_def weights
          s5_def s4_def s3_def s2_def p1_def p2_def p3_def p4_def p5_def
          B_def A_def S_def C_def T_def)
  have ex: "of_int (30 * b + 20 * a + 15 * s + 25 * c + 10 * t) / 100
              = (30 * B + 20 * A + 15 * S + 25 * C + 10 * T) / 100"
    by (simp add: B_def A_def S_def C_def T_def)
  have g1: "p1 \<le> 3 / 10 * B + 2 / 1000000000000"
    using e1[unfolded abs_le_iff] r(1,2) by linarith
  have k1: "3 / 10 * B - 2 / 1000000000000 \<le> p1"
    using e1[unfolded abs_le_iff] r(1,2) by linarith
  have g2: "p2 \<le> 2 / 10 * A + 2 / 1000000000000"
    using e2[unfolded abs_le_iff] r(3,4) by linarith
  have k2: "2 / 10 * A - 2 / 1000000000000 \<le> p2"
    using e2[unfolded abs_le_iff] r(3,4) by linarith
  have g3: "p3 \<le> 15 / 100 * S + 2 / 1000000000000"
    using e3[unfolded abs_le_iff] r(5,6) by linarith
  have k3: "15 / 100 * S - 2 / 1000000000000 \<le> p3"
    using e3[unfolded abs_le_iff] r(5,6) by linarith
  have g4: "p4 \<le> 25 / 100 * C + 2 / 1000000000000"
    using e4[unfolded abs_le_iff] r(7,8) by linarith
  have k4: "25 / 100 * C - 2 / 1000000000000 \<le> p4"
    using e4[unfolded abs_le_iff] r(7,8) by linarith
  have g5: "p5 \<le> 1 / 10 * T + 2 / 1000000000000"
    using e5[unfolded abs_le_iff] r(9,10) by linarith
  have k5: "1 / 10 * T - 2 / 1000000000000 \<le> p5"
    using e5[unfolded abs_le_iff] r(9,10) by linarith
  have u2: "s2 \<le> 3 / 10 * B + 2 / 10 * A + 5 / 1000000000000"
    using g1 g2 f2[unfolded abs_le_iff] by linarith
  have l2: "3 / 10 * B + 2 / 10 * A - 5 / 1000000000000 \<le> s2"
    using k1 k2 f2[unfolded abs_le_iff] by linarith
  have u3: "s3 \<le> 3 / 10 * B + 2 / 10 * A + 15 / 100 * S + 8 / 1000000000000"
    using u2 g3 f3[unfolded abs_le_iff] by linarith
  have l3: "3 / 10 * B + 2 / 10 * A + 15 / 100 * S - 8 / 1000000000000 \<le> s3"
    using l2 k3 f3[unfolded abs_le_iff] by linarith
  have u4: "s4 \<le> 3 / 10 * B + 2 / 10 * A + 15 / 100 * S + 25 / 100 * C + 11 / 1000000000000"
    using u3 g4 f4[unfolded abs_le_iff] by linarith
  have l4: "3 / 10 * B + 2 / 10 * A + 15 / 100 * S + 25 / 100 * C - 11 / 1000000000000 \<le> s4"
    using l3 k4 f4[unfolded abs_le_iff] by linarith
  have u5: "s5 \<le> 3 / 10 * B + 2 / 10 * A + 15 / 100 * S + 25 / 100 * C + 1 / 10 * T
                  + 14 / 1000000000000"
    using u4 g5 f5[unfolded abs_le_iff] by linarith
  have l5: "3 / 10 * B + 2 / 10 * A + 15 / 100 * S + 25 / 100 * C + 1 / 10 * T
              - 14 / 1000000000000 \<le> s5"
    using l4 k5 f5[unfolded abs_le_iff] by linarith
  have dv: "(30 * B + 20 * A + 15 * S + 25 * C + 10 * T) / 100
              = 3 / 10 * B + 2 / 10 * A + 15 / 100 * S + 25 / 100 * C + 1 / 10 * T"
    by (simp add: add_divide_distrib)
  have up: "s5 - (30 * B + 20 * A + 15 * S + 25 * C + 10 * T) / 100 \<le> 1 / 50000000000"
    unfolding dv using u5 by linarith
  have lo: "- (s5 - (30 * B + 20 * A + 15 * S + 25 * C + 10 * T) / 100) \<le> 1 / 50000000000"
    unfolding dv using l5 by linarith
  show ?thesis unfolding ws ex abs_le_iff using up lo by simp
qed

lemma round_weighted:
  fixes x :: rat and n :: int
  assumes "\<bar>x - of_int n / 100\<bar> \<le> 1 / 50000000000"
  shows "\<bar>100 * Math_round x - n\<bar> \<le> 50"
proof -
  define k where "k = \<lfloor>x + 1/2\<rfloor>"
  have k1: "of_int k \<le> x + 1/2" and k2: "x + 1/2 < of_int k + 1"
    unfolding k_def by linarith+
  have "100 * of_int k - of_int n < (51::rat)" using k1 assms by linarith
  then have "(of_int (100 * k - n) :: rat) < of_int 51" by simp
  then have u: "100 * k - n < 51" by (simp only: of_int_less_iff)
  have "(-51 :: rat) < 100 * of_int k - of_int n" using k2 assms by linarith
  then have "(of_int (-51) :: rat) < of_int (100 * k - n)" by simp
  then have l: "-51 < 100 * k - n" by (simp only: of_int_less_iff)
  show ?thesis using u l by (simp add: Math_round_def k_def[symmetric])
qed

subsection \<open>The scores of the audit\<close>

lemma audit_fields:
  "brand_voice (auditContent c) = analyzeBrandVoice c"
  "audience_alignment (auditContent c) = analyzeAudienceAlignment c"
  "content_structure (auditContent c) = analyzeContentStructure c"
  "compliance_requirements (auditContent c) = analyzeCompliance c"
  "sales_tactics (auditContent c) = analyzeSalesTactics c"
  by (simp_all add: auditContent_def Let_def)

lemma brand_voice_fields:
  "knowledgeable_authoritative (analyzeBrandVoice c) = scoreAuthoritativeness c"
  "trustworthy_transparent (analyzeBrandVoice c) = scoreTrustworthiness c"
  "professional_established (analyzeBrandVoice c) = scoreProfessionalism c"
  "protective_strategic (analyzeBrandVoice c) = scoreProtectiveness c"
  "bv_score (analyzeBrandVoice c) = Math_round (fl (of_int (scoreAuthoritativeness c
      + scoreTrustworthiness c + scoreProfessionalism c + scoreProtectiveness c) / 4))"
  by (simp_all add: analyzeBrandVoice_def Let_def)

lemma audience_fields:
  "age_appropriate (analyzeAudienceAlignment c) = scoreAgeAppropriateness c"
  "tone_match (analyzeAudienceAlignment c) = scoreToneMatch c"
  "complexity_level (analyzeAudienceAlignment c) = scoreComplexityLevel c"
  "aa_score (analyzeAudienceAlignment c) = Math_round (fl (of_int (scoreAgeAppropriateness c
      + scoreToneMatch c + scoreComplexityLevel c) / 3))"
  by (simp_all add: analyzeAudienceAlignment_def Let_def)

lemma structure_fields:
  "information_hierarchy (analyzeContentStructure c) = scoreInformationHierarchy c"
  "readability (analyzeContentStructure c) = scoreReadability c"
  "educational_flow (analyzeContentStructure c) = scoreEducationalFlow c"
  "cs_score (analyzeContentStructure c) = Math_round (fl (of_int (scoreInformationHierarchy c
      + scoreReadability c + scoreEducationalFlow c) / 3))"
  by (simp_all add: analyzeContentStructure_def Let_def)

lemma compliance_fields:
  "disclaimers_present (analyzeCompliance c) = checkDisclaimers c"
  "risk_disclosures (analyzeCompliance c) = checkRiskDisclosures c"
  "educational_framing (analyzeCompliance c) = checkEducationalFraming c"
  "cr_score (analyzeCompliance c) = min 100 (50 + (if checkDisclaimers c then 25 else 0)
      + (if checkRiskDisclosures c then 20 else 0) + (if checkEducationalFraming c then 25 else 0))"
  by (simp_all add: analyzeCompliance_def Let_def)

lemma sales_fields:
  "pressure_tactics (analyzeSalesTactics c) = findPressureTactics c"
  "urgency_language (analyzeSalesTactics c) = findUrgencyLanguage c"
  "aggressive_terms (analyzeSalesTactics c) = findAggressiveTerms c"
  "trust_vs_push_ratio (analyzeSalesTactics c) = calculateTrustVsPushRatio c"
  "st_score (analyzeSalesTactics c) = max 0 (80 - int (length (findPressureTactics c)) * 15
      - int (length (findUrgencyLanguage c)) * 10 - int (length (findAggressiveTerms c)) * 12
      - (if js_lt (calculateTrustVsPushRatio c) 1 then 20 else 0))"
  by (simp_all add: analyzeSalesTactics_def Let_def)

lemma sub_scores_in_range:
  "in_range (scoreAuthoritativeness c)" "in_range (scoreTrustworthiness c)"
  "in_range (scoreProfessionalism c)" "in_range (scoreProtectiveness c)"
  "in_range (scoreAgeAppropriateness c)" "in_range (scoreToneMatch c)"
  "in_range (scoreComplexityLevel c)" "in_range (scoreInformationHierarchy c)"
  "in_range (scoreReadability c)" "in_range (scoreEducationalFlow c)"
  unfolding scoreAuthoritativeness_def scoreTrustworthiness_def scoreProfessionalism_def
    scoreProtectiveness_def scoreAgeAppropriateness_def scoreToneMatch_def
    scoreComplexityLevel_def scoreInformationHierarchy_def scoreReadability_def
    scoreEducationalFlow_def Let_def
  by (rule in_range_clamp)+

lemma compliance_in_range: "in_range (cr_score (analyzeCompliance c))"
  by (simp add: compliance_fields in_range_def)

lemma sales_in_range: "in_range (st_score (analyzeSalesTactics c))"
  by (simp add: sales_fields in_range_def)

lemma brand_voice_in_range: "in_range (bv_score (analyzeBrandVoice c))"
  unfolding brand_voice_fields
  using sub_scores_in_range(1-4)[of c]
  by (intro in_range_average[of _ 4, simplified]) (auto simp: in_range_def)

lemma audience_in_range: "in_range (aa_score (analyzeAudienceAlignment c))"
  unfolding audience_fields
  using sub_scores_in_range(5-7)[of c]
  by (intro in_range_average[of _ 3, simplified]) (auto simp: in_range_def)

lemma structure_in_range: "in_range (cs_score (analyzeContentStructure c))"
  unfolding structure_fields
  using sub_scores_in_range(8-10)[of c]
  by (intro in_range_average[of _ 3, simplified]) (auto simp: in_range_def)

lemma overall_eq:
  "overall_score (auditContent c) =
     Math_round (weightedSum (bv_score (analyzeBrandVoice c)) (aa_score (analyzeAudienceAlignment c))
       (cs_score (analyzeContentStructure c)) (cr_score (analyzeCompliance c))
       (st_score (analyzeSalesTactics c)))"
  by (simp add: auditContent_def Let_def calculateOverallScore_def)

lemma overall_near:
  "\<bar>100 * overall_score (auditContent c)
      - (30 * bv_score (analyzeBrandVoice c) + 20 * aa_score (analyzeAudienceAlignment c)
         + 15 * cs_score (analyzeContentStructure c) + 25 * cr_score (analyzeCompliance c)
         + 10 * st_score (analyzeSalesTactics c))\<bar> \<le> 50"
  unfolding overall_eq
  by (rule round_weighted, rule weightedSum_close)
     (rule brand_voice_in_range audience_in_range structure_in_range compliance_in_range
        sales_in_range)+

lemma overall_in_range: "in_range (overall_score (auditContent c))"
  using overall_near[of c] brand_voice_in_range[of c] audience_in_range[of c]
    structure_in_range[of c] compliance_in_range[of c] sales_in_range[of c]
  unfolding in_range_def by linarith

text \<open>
  Claim C1. For every text, the twelve dimension scores of the audit, the three
  composite scores and the overall score all lie between 0 and 100.
\<close>

theorem audit_scores_in_range:
  "in_range (knowledgeable_authoritative (brand_voice (auditContent content)))
   \<and> in_range (trustworthy_transparent (brand_voice (auditContent content)))
   \<and> in_range (professional_established (brand_voice (auditContent content)))
   \<and> in_range (protective_strategic (brand_voice (auditContent content)))
   \<and> in_range (age_appropriate (audience_alignment (auditContent content)))
   \<and> in_range (tone_match (audience_alignment (auditContent content)))
   \<and> in_range (complexity_level (audience_alignment (auditContent content)))
   \<and> in_range (information_hierarchy (content_structure (auditContent content)))
   \<and> in_range (readability (content_structure (auditContent content)))
   \<and> in_range (educational_flow (content_structure (auditContent content)))
   \<and> in_range (cr_score (compliance_requirements (auditContent content)))
   \<and> in_range (st_score (sales_tactics (auditContent content)))
   \<and> in_range (bv_score (brand_voice (auditContent content)))
   \<and> in_range (aa_score (audience_alignment (auditContent content)))
   \<and> in_range (cs_score (content_structure (auditContent content)))
   \<and> in_range (overall_score (auditContent content))"
  unfolding audit_fields brand_voice_fields(1-4) audience_fields(1-3) structure_fields(1-3)
  by (intro conjI sub_scores_in_range compliance_in_range sales_in_range brand_voice_in_range
        audience_in_range structure_in_range overall_in_range)


subsection \<open>Sales tactics\<close>


lemma example_found:
  "found (toLowerCase (js ''Guaranteed returns! Act now, don't miss out, buy now!'')) pressureTerms
     = [js ''act now'', js ''don't miss out'']"
  "found (toLowerCase (js ''Guaranteed returns! Act now, don't miss out, buy now!'')) urgencyTerms
     = []"
  "found (toLowerCase (js ''Guaranteed returns! Act now, don't miss out, buy now!'')) aggressiveTerms
     = [js ''guaranteed returns'']"
  "found (toLowerCase (js ''Guaranteed returns! Act now, don't miss out, buy now!'')) trustTerms
     = []"
  "found (toLowerCase (js ''Guaranteed returns! Act now, don't miss out, buy now!'')) pushTerms
     = [js ''buy'', js ''don't miss'', js ''act now'']"
  by (simp_all add: found_def str_includes_def toLowerCase_def lowerUnit_def js_def
        pressureTerms_def urgencyTerms_def aggressiveTerms_def trustTerms_def pushTerms_def)

text \<open>
  Claim C7. For the text "Guaranteed returns! Act now, don't miss out, buy now!" the
  aggressive terms include "guaranteed returns", the pressure tactics include "act now"
  and "don't miss out", and the sales-tactics score, 18, is below 50.
\<close>

theorem sales_example:
  "js ''guaranteed returns'' \<in> set (aggressive_terms (sales_tactics
       (auditContent (js ''Guaranteed returns! Act now, don't miss out, buy now!''))))
   \<and> js ''act now'' \<in> set (pressure_tactics (sales_tactics
       (auditContent (js ''Guaranteed returns! Act now, don't miss out, buy now!''))))
   \<and> js ''don't miss out'' \<in> set (pressure_tactics (sales_tactics
       (auditContent (js ''Guaranteed returns! Act now, don't miss out, buy now!''))))
   \<and> st_score (sales_tactics
       (auditContent (js ''Guaranteed returns! Act now, don't miss out, buy now!''))) = 18
   \<and> st_score (sales_tactics
       (auditContent (js ''Guaranteed returns! Act now, don't miss out, buy now!''))) < 50"
  by (simp add: audit_fields sales_fields findPressureTactics_def findUrgencyLanguage_def
        findAggressiveTerms_def calculateTrustVsPushRatio_def trustCountOf_def pushCountOf_def
        example_found js_div_def fl_def)

subsection \<open>Slang as substrings\<close>







subsection \<open>The empty text\<close>

lemma str_includes_nil: "str_includes [] t = (t = [])"
  by (simp add: str_includes_def)

lemma toLowerCase_nil: "toLowerCase [] = []"
  by (simp add: toLowerCase_def)

lemma js_nil: "js [] = []"
  by (simp add: js_def)

lemmas term_tables = authoritativeTerms_def unsubstantiatedClaims_def transparentTerms_def
  trustBuildingTerms_def secretiveTerms_def professionalTerms_def casualTerms_def
  protectiveTerms_def protEducationalTerms_def salesTerms_def youngTerms_def
  appropriateRefs_def conservativeTerms_def riskAverseTerms_def jargonTerms_def
  progressionTerms_def reinforcementTerms_def disclaimerTerms_def riskTerms_def
  educationalTerms_def pressureTerms_def urgencyTerms_def aggressiveTerms_def trustTerms_def
  pushTerms_def

lemma found_nil:
  "found [] authoritativeTerms = []" "found [] unsubstantiatedClaims = []"
  "found [] transparentTerms = []" "found [] trustBuildingTerms = []"
  "found [] secretiveTerms = []" "found [] professionalTerms = []"
  "found [] casualTerms = []" "found [] protectiveTerms = []"
  "found [] protEducationalTerms = []" "found [] salesTerms = []"
  "found [] youngTerms = []" "found [] appropriateRefs = []"
  "found [] conservativeTerms = []" "found [] riskAverseTerms = []"
  "found [] jargonTerms = []" "found [] progressionTerms = []"
  "found [] reinforcementTerms = []" "found [] riskTerms = []"
  "found [] educationalTerms = []" "found [] pressureTerms = []"
  "found [] urgencyTerms = []" "found [] aggressiveTerms = []"
  "found [] trustTerms = []" "found [] pushTerms = []"
  by (simp_all add: found_def str_includes_nil term_tables js_def)

lemma empty_rounds:
  "Math_round (fl 55) = 55" "Math_round (fl 60) = 60"
  "Math_round (fl (160 / 3)) = 53" "Math_round (weightedSum 55 60 53 50 60) = 55"
  by code_simp+

lemma empty_sub_scores:
  "scoreAuthoritativeness [] = 50" "scoreTrustworthiness [] = 50"
  "scoreProfessionalism [] = 70" "scoreProtectiveness [] = 50"
  "scoreAgeAppropriateness [] = 70" "scoreToneMatch [] = 60"
  "scoreComplexityLevel [] = 50" "scoreInformationHierarchy [] = 50"
  "scoreReadability [] = 60" "scoreEducationalFlow [] = 50"
  by (simp_all add: scoreAuthoritativeness_def scoreTrustworthiness_def scoreProfessionalism_def
        scoreProtectiveness_def scoreAgeAppropriateness_def scoreToneMatch_def
        scoreComplexityLevel_def scoreInformationHierarchy_def scoreReadability_def
        scoreEducationalFlow_def count_found_def found_nil toLowerCase_nil str_includes_nil
        js_def re_d4_def re_percent_def sentencesOf_def paragraphsOf_def split_def split_ws_def
        trim_def totalLength_def js_div_def clamp_def)

lemma empty_compliance:
  "analyzeCompliance [] = \<lparr> cr_score = 50, disclaimers_present = False,
      risk_disclosures = False, educational_framing = False,
      cr_issues = [js ''Missing required financial disclaimers'',
                   js ''Content not properly framed as educational''] \<rparr>"
  by (simp add: analyzeCompliance_def checkDisclaimers_def checkRiskDisclosures_def
        checkEducationalFraming_def count_found_def found_nil toLowerCase_nil str_includes_nil
        disclaimerTerms_def push_if_def js_def)

lemma empty_sales:
  "analyzeSalesTactics [] = \<lparr> st_score = 60, pressure_tactics = [], urgency_language = [],
      aggressive_terms = [], trust_vs_push_ratio = Fin 0 \<rparr>"
  by (simp add: analyzeSalesTactics_def findPressureTactics_def findUrgencyLanguage_def
        findAggressiveTerms_def calculateTrustVsPushRatio_def trustCountOf_def pushCountOf_def
        found_nil toLowerCase_nil)

text \<open>
  Claim C6, as stated, fails for the sales-tactics score: on the empty text it is not
  the start value 80.
\<close>

theorem empty_audit_sales_counterexample:
  "st_score (sales_tactics (auditContent (js ''''))) \<noteq> 80"
  by (simp add: audit_fields js_nil empty_sales)

text \<open>
  Claim C6, amended. The audit of the empty text is the following result: the ten
  dimension scorers return their base values, the three compliance flags are false,
  every list of issues is a list, the lists of matched sales terms are empty, the
  trust/push ratio is 0 and the sales-tactics score is 60, the start value 80 less the
  20 for a ratio below 1.
\<close>

theorem empty_audit:
  "auditContent (js '''') =
     \<lparr> overall_score = 55,
       compliance_status = FAILED,
       brand_voice =
         \<lparr> bv_score = 55, knowledgeable_authoritative = 50, trustworthy_transparent = 50,
           professional_established = 70, protective_strategic = 50,
           bv_issues = [js ''Lacks authoritative evidence and data'',
                        js ''Needs more transparency about risks and processes'',
                        js ''Too sales-focused, not protective enough''] \<rparr>,
       audience_alignment =
         \<lparr> aa_score = 60, age_appropriate = 70, tone_match = 60, complexity_level = 50,
           aa_issues = [js ''Tone doesn't match conservative investor preferences'',
                        js ''Content complexity not optimal for audience''] \<rparr>,
       content_structure =
         \<lparr> cs_score = 53, information_hierarchy = 50, readability = 60, educational_flow = 50,
           cs_issues = [js ''Poor information hierarchy - needs better structure'',
                        js ''Readability issues - too dense or poorly formatted'',
                        js ''Doesn't follow educational progression''] \<rparr>,
       compliance_requirements =
         \<lparr> cr_score = 50, disclaimers_present = False, risk_disclosures = False,
           educational_framing = False,
           cr_issues = [js ''Missing required financial disclaimers'',
                        js ''Content not properly framed as educational''] \<rparr>,
       sales_tactics =
         \<lparr> st_score = 60, pressure_tactics = [], urgency_language = [],
           aggressive_terms = [], trust_vs_push_ratio = Fin 0 \<rparr>,
       recommendations =
         \<lparr> immediate_fixes = [js ''Increase educational content relative to sales messaging''],
           structural_changes = [js ''Improve content structure with headers and logical flow'',
              js ''Break up dense text with bullet points and shorter paragraphs''],
           voice_adjustments = [js ''Add more data, historical context, and authoritative sources'',
              js ''Include more transparency about risks and processes'',
              js ''Shift from sales-focused to protective, educational tone''],
           compliance_additions = [js ''Add required financial disclaimers'',
              js ''Include risk disclosure statements'',
              js ''Reframe content as educational rather than promotional''] \<rparr>,
       redesign_priority = HIGH \<rparr>"
proof -
  show ?thesis
    unfolding js_nil
    by (simp add: auditContent_def analyzeBrandVoice_def analyzeAudienceAlignment_def
          analyzeContentStructure_def empty_sub_scores empty_compliance empty_sales
          calculateOverallScore_def empty_rounds generateRecommendations_def
          determineComplianceStatus_def determineRedesignPriority_def push_if_def Let_def)
qed

subsection \<open>Light redesign\<close>






subsection \<open>Fallbacks\<close>

text \<open>
  Claim C8 at the persona key "constructor": the lookup finds the member that every
  object inherits, which is truthy, so the fallback is not taken and the result is not
  the guidance for security seekers.
\<close>

theorem persona_inherited_key:
  "getPersonaGuidance (js ''constructor'') = Inherited (js ''constructor'')
   \<and> getPersonaGuidance (js ''constructor'') \<noteq> Own security_seekers"
  by (simp add: getPersonaGuidance_def lookup_or_def lookup_def guidanceMap_def
        objectPrototypeKeys_def js_def)

text \<open>The fallbacks that hold: a persona key that is neither one of the four nor an
  inherited property name gives the guidance for security seekers, and an intensity other
  than light and complete is redesigned as moderate.\<close>

lemma persona_fallback:
  assumes "key \<notin> set (map fst guidanceMap)" "key \<notin> set objectPrototypeKeys"
  shows "getPersonaGuidance key = Own security_seekers"
proof -
  have "map_of guidanceMap key = None" using assms(1) by (simp add: map_of_eq_None_iff)
  then show ?thesis using assms(2) by (simp add: getPersonaGuidance_def lookup_or_def lookup_def)
qed

lemma unknown_intensity_is_moderate:
  assumes "i \<noteq> js ''light''" "i \<noteq> js ''complete''"
  shows "redesignContent (request\<lparr>redesign_intensity := Some i\<rparr>)
           = redesignContent (request\<lparr>redesign_intensity := Some (js ''moderate'')\<rparr>)"
proof -
  have m: "js ''moderate'' \<noteq> []" "js ''moderate'' \<noteq> js ''light''"
    by (simp_all add: js_def)
  have "performRedesign c a (request\<lparr>redesign_intensity := Some i\<rparr>) k
          = performRedesign c a (request\<lparr>redesign_intensity := Some (js ''moderate'')\<rparr>) k"
    for c a k
    using assms m
    by (simp add: performRedesign_def or_default_def performModerateRedesign_def Let_def)
  then show ?thesis by (simp add: redesignContent_def)
qed

end
